theory Spec2Isabelle
  imports Complex_Main "HOL-Library.Sublist"
begin

section \<open>JavaScript values used by the scripts\<close>

text \<open>
  A field of a server object that the scripts read as a string is either missing
  (\<open>undefined\<close>), \<open>null\<close>, or a string.
\<close>

datatype jstr = Undefined | Null | Str string

text \<open>Truthiness of such a value: only a non-empty string is truthy.\<close>

definition truthy :: "jstr \<Rightarrow> bool" where
  "truthy v = (case v of Str s \<Rightarrow> s \<noteq> [] | _ \<Rightarrow> False)"

text \<open>\<^verbatim>\<open>(v || '')\<close>\<close>

definition or_empty :: "jstr \<Rightarrow> string" where
  "or_empty v = (if truthy v then (case v of Str s \<Rightarrow> s | _ \<Rightarrow> []) else [])"

text \<open>A value inside a template literal: \<^verbatim>\<open>`${v}`\<close>.\<close>

definition template :: "jstr \<Rightarrow> string" where
  "template v = (case v of Undefined \<Rightarrow> ''undefined'' | Null \<Rightarrow> ''null'' | Str s \<Rightarrow> s)"

text \<open>
  Strings are lists of characters; a character stands for a code unit below 256
  (Latin-1). \<^verbatim>\<open>s.toLowerCase()\<close> maps the letters A to Z, and the Latin-1 capitals
  (192 to 222, without the multiplication sign 215), to their lower-case letters,
  32 code units further.
\<close>

definition toLowerCase_char :: "char \<Rightarrow> char" where
  "toLowerCase_char c =
     (let n = (of_char c :: nat) in
      if (65 \<le> n \<and> n \<le> 90) \<or> (192 \<le> n \<and> n \<le> 222 \<and> n \<noteq> 215) then char_of (n + 32) else c)"

definition toLowerCase :: "string \<Rightarrow> string" where
  "toLowerCase s = map toLowerCase_char s"

text \<open>\<^verbatim>\<open>s.includes(k)\<close>: \<open>k\<close> occurs in \<open>s\<close> as a contiguous run.\<close>

fun str_includes :: "string \<Rightarrow> string \<Rightarrow> bool" where
  "str_includes [] k = (k = [])"
| "str_includes (c # cs) k = (prefix k (c # cs) \<or> str_includes cs k)"

text \<open>The double quote character, for message texts.\<close>

definition dq :: string where
  "dq = [CHR 0x22]"

text \<open>The single quote character, and the runtime's text for reading a property.\<close>

definition sq :: string where
  "sq = [CHR 0x27]"

definition reading :: "string \<Rightarrow> string" where
  "reading key = '' (reading '' @ sq @ key @ sq @ '')''"

text \<open>Exceptions carry a message (\<^verbatim>\<open>error.message\<close>).\<close>

datatype js_error = Error string | TypeError string | RangeError string

fun message :: "js_error \<Rightarrow> string" where
  "message (Error m) = m"
| "message (TypeError m) = m"
| "message (RangeError m) = m"

subsection \<open>Dates\<close>

text \<open>
  A \<^verbatim>\<open>Date\<close> object is its time value in milliseconds since the epoch, or
  \<open>None\<close> for an invalid date (time value NaN). Parsing a timestamp string
  (\<^verbatim>\<open>new Date(s)\<close>) and printing one (\<^verbatim>\<open>toISOString\<close>) belong to the
  JavaScript runtime; the functions below take them as parameters \<open>parse\<close> and
  \<open>toISO\<close>.
\<close>

type_synonym js_date = "int option"

definition Date_new :: "(string \<Rightarrow> int option) \<Rightarrow> jstr \<Rightarrow> js_date" where
  "Date_new parse v =
     (case v of Undefined \<Rightarrow> None | Null \<Rightarrow> Some 0 | Str s \<Rightarrow> parse s)"

text \<open>\<^verbatim>\<open>a < b\<close> on two dates: false as soon as one of them is invalid.\<close>

definition date_lt :: "js_date \<Rightarrow> js_date \<Rightarrow> bool" where
  "date_lt a b = (case (a, b) of (Some x, Some y) \<Rightarrow> x < y | _ \<Rightarrow> False)"

text \<open>\<^verbatim>\<open>d.toISOString()\<close> throws a RangeError on an invalid date.\<close>

definition Date_toISOString :: "(int \<Rightarrow> string) \<Rightarrow> js_date \<Rightarrow> js_error + string" where
  "Date_toISOString toISO d =
     (case d of None \<Rightarrow> Inl (RangeError ''Invalid time value'') | Some t \<Rightarrow> Inr (toISO t))"

text \<open>
  \<^verbatim>\<open>new Date('2022-01-01')\<close>: a date-only string is read as midnight UTC, that is
  1640995200000 ms after the epoch.
\<close>

definition cutoffDate :: js_date where
  "cutoffDate = Some 1640995200000"

section \<open>Page records and the inclusion filter\<close>

record page =
  page_id :: jstr
  title :: jstr
  lastModifiedDateTime :: jstr

text \<open>The result object of the server's \<^verbatim>\<open>shouldSkipPage\<close>: \<^verbatim>\<open>{ skip, reason }\<close>.\<close>

record skip_check =
  skip :: bool
  reason :: "string option"

text \<open>\<^verbatim>\<open>shouldSkipPage\<close> of onenote-mcp.mjs.\<close>

definition shouldSkipPage ::
  "(string \<Rightarrow> int option) \<Rightarrow> (int \<Rightarrow> string) \<Rightarrow> page \<Rightarrow> js_error + skip_check" where
  "shouldSkipPage parse toISO p =
     (let t = toLowerCase (or_empty (title p)) in
      if str_includes t ''private'' \<or> str_includes t ''(old)'' then
        Inr \<lparr>skip = True,
             reason = Some (''Title contains excluded keyword: '' @ dq @ template (title p) @ dq)\<rparr>
      else if truthy (lastModifiedDateTime p) then
        (let lastModified = Date_new parse (lastModifiedDateTime p) in
         if date_lt lastModified cutoffDate then
           (case Date_toISOString toISO lastModified of
              Inl e \<Rightarrow> Inl e
            | Inr s \<Rightarrow>
                Inr \<lparr>skip = True,
                     reason = Some (''Last modified date ('' @ s @ '') is older than 2022/1/1'')\<rparr>)
         else Inr \<lparr>skip = False, reason = None\<rparr>)
      else Inr \<lparr>skip = False, reason = None\<rparr>)"

text \<open>
  \<^verbatim>\<open>shouldSkipPage\<close> of get-page-content.js and of get-page.js (the second script
  of src/unnamed/part_000): the same two rules, the reason goes to the console and
  the result is a boolean. The result here is the lines printed and the boolean.
\<close>

definition shouldSkipPage_cli ::
  "(string \<Rightarrow> int option) \<Rightarrow> (int \<Rightarrow> string) \<Rightarrow> page \<Rightarrow> js_error + (string list \<times> bool)" where
  "shouldSkipPage_cli parse toISO p =
     (let t = toLowerCase (or_empty (title p)) in
      if str_includes t ''private'' \<or> str_includes t ''(old)'' then
        Inr ([''Skipping page: Title contains excluded keyword: '' @ dq @ template (title p) @ dq],
             True)
      else if truthy (lastModifiedDateTime p) then
        (let lastModified = Date_new parse (lastModifiedDateTime p) in
         if date_lt lastModified cutoffDate then
           (case Date_toISOString toISO lastModified of
              Inl e \<Rightarrow> Inl e
            | Inr s \<Rightarrow>
                Inr ([''Skipping page: Last modified date ('' @ s @ '') is older than 2022/1/1''],
                     True))
         else Inr ([], False))
      else Inr ([], False))"

text \<open>
  \<^verbatim>\<open>shouldSkipPageByTitle\<close> of download-all-pages.js. Its argument is a title
  string taken from a manifest line.
\<close>

definition shouldSkipPageByTitle :: "string \<Rightarrow> bool" where
  "shouldSkipPageByTitle t =
     (let lowerTitle = toLowerCase t in
      str_includes lowerTitle ''(old)'' \<or> str_includes lowerTitle ''private'')"

text \<open>\<^verbatim>\<open>shouldSkipByDate\<close> of download-all-pages.js.\<close>

definition shouldSkipByDate :: "(string \<Rightarrow> int option) \<Rightarrow> page \<Rightarrow> bool" where
  "shouldSkipByDate parse p =
     (if truthy (lastModifiedDateTime p) then
        (let lastModified = Date_new parse (lastModifiedDateTime p) in
         date_lt lastModified cutoffDate)
      else False)"

text \<open>The condition of the title rule, as \<^verbatim>\<open>shouldSkipPage\<close> computes it.\<close>

definition title_excluded :: "page \<Rightarrow> bool" where
  "title_excluded p =
     (let t = toLowerCase (or_empty (title p)) in
      str_includes t ''private'' \<or> str_includes t ''(old)'')"


definition date_reason :: "string \<Rightarrow> string" where
  "date_reason s = ''Last modified date ('' @ s @ '') is older than 2022/1/1''"

text \<open>
  Sample values of the runtime's date functions, for the concrete runs below:
  the time values of two timestamps and the ISO text of the first.
\<close>

definition sample_parse :: "string \<Rightarrow> int option" where
  "sample_parse s =
     (if s = ''2021-06-01T00:00:00Z'' then Some 1622505600000
      else if s = ''2022-06-01T00:00:00Z'' then Some 1654041600000
      else None)"

definition sample_toISO :: "int \<Rightarrow> string" where
  "sample_toISO t =
     (if t = 1622505600000 then ''2021-06-01T00:00:00.000Z''
      else if t = 1654041600000 then ''2022-06-01T00:00:00.000Z''
      else ''1970-01-01T00:00:00.000Z'')"

text \<open>
  Sample records: last modified before the cutoff, after it, two with the title
  \<open>Private diary\<close>, one without a title and last modified before the cutoff, and
  one with neither title nor date.
\<close>

definition page_2021 :: page where
  "page_2021 = \<lparr>page_id = Str ''1-a'', title = Str ''Notes'',
                  lastModifiedDateTime = Str ''2021-06-01T00:00:00Z''\<rparr>"

definition page_2022 :: page where
  "page_2022 = \<lparr>page_id = Str ''1-b'', title = Str ''Notes'',
                  lastModifiedDateTime = Str ''2022-06-01T00:00:00Z''\<rparr>"


definition page_private_2022 :: page where
  "page_private_2022 = \<lparr>page_id = Str ''1-f'', title = Str ''Private diary'',
                          lastModifiedDateTime = Str ''2022-06-01T00:00:00Z''\<rparr>"

definition page_untitled_2021 :: page where
  "page_untitled_2021 = \<lparr>page_id = Str ''1-d'', title = Null,
                           lastModifiedDateTime = Str ''2021-06-01T00:00:00Z''\<rparr>"

definition page_undated :: page where
  "page_undated = \<lparr>page_id = Str ''1-c'', title = Undefined,
                     lastModifiedDateTime = Undefined\<rparr>"

section \<open>Credential files\<close>

text \<open>
  \<^verbatim>\<open>s.trim()\<close>: white space and line terminators are removed at both ends (tab, line
  feed, vertical tab, form feed, carriage return, space, no-break space).
\<close>

definition is_ws :: "char \<Rightarrow> bool" where
  "is_ws c = (of_char c \<in> {9, 10, 11, 12, 13, 32, 160 :: nat})"

definition trim :: "string \<Rightarrow> string" where
  "trim s = rev (dropWhile is_ws (rev (dropWhile is_ws s)))"

text \<open>
  The value \<^verbatim>\<open>JSON.parse\<close> returns. A number is kept as a real (the scripts only
  test it for truthiness). An object is the list of its members in the order of the
  text; a later member with the same key wins. \<^verbatim>\<open>JSON.parse\<close> itself belongs to the
  runtime: the loaders take it as the parameter \<open>JSON_parse\<close>, \<open>None\<close> when it throws
  a SyntaxError.
\<close>

datatype json = JNull | JBool bool | JNum real | JStr string | JArr "json list"
  | JObj "(string \<times> json) list"

text \<open>
  \<^verbatim>\<open>v.key\<close> for a key that no prototype defines (\<open>token\<close>, \<open>access_token\<close>):
  reading a property of \<open>null\<close> throws a TypeError, an object gives its member or
  \<open>undefined\<close> (\<open>None\<close>), any other value gives \<open>undefined\<close>.
\<close>

definition get_prop :: "json \<Rightarrow> string \<Rightarrow> js_error + json option" where
  "get_prop v key =
     (case v of
        JNull \<Rightarrow> Inl (TypeError (''Cannot read properties of null'' @ reading key))
      | JObj members \<Rightarrow> Inr (map_of (rev members) key)
      | _ \<Rightarrow> Inr None)"

text \<open>Truthiness of a value that may be \<open>undefined\<close>.\<close>

definition truthy_json :: "json option \<Rightarrow> bool" where
  "truthy_json v =
     (case v of
        None \<Rightarrow> False
      | Some JNull \<Rightarrow> False
      | Some (JBool b) \<Rightarrow> b
      | Some (JNum x) \<Rightarrow> x \<noteq> 0
      | Some (JStr s) \<Rightarrow> s \<noteq> []
      | Some (JArr _) \<Rightarrow> True
      | Some (JObj _) \<Rightarrow> True)"

text \<open>
  The inner \<^verbatim>\<open>try\<close> of every loader but \<^verbatim>\<open>listSections\<close>:
  \<^verbatim>\<open>
    try { const parsedToken = JSON.parse(tokenData); accessToken = parsedToken.token; }
    catch (parseError) { accessToken = tokenData; }
  \<close>
  The \<^verbatim>\<open>catch\<close> also catches the TypeError of the property read.
\<close>

definition read_token :: "(string \<Rightarrow> json option) \<Rightarrow> string \<Rightarrow> json option" where
  "read_token JSON_parse tokenData =
     (case JSON_parse tokenData of
        None \<Rightarrow> Some (JStr tokenData)
      | Some parsedToken \<Rightarrow>
          (case get_prop parsedToken ''token'' of
             Inl e \<Rightarrow> Some (JStr tokenData)
           | Inr v \<Rightarrow> v))"

text \<open>
  The two ways a loader ends without a token: the file does not exist
  (\<open>Access token not found. Please authenticate first.\<close>), or it gives no truthy
  token (\<open>Access token not found in file.\<close>). The specification calls both
  \<open>CredentialMissing\<close>.
\<close>

datatype credential_missing = TokenFileMissing | TokenNotInFile

text \<open>
  Token loading of list-pages.js (both versions), get-page-content.js and
  search-pages.js. The file is \<open>None\<close> when \<^verbatim>\<open>fs.existsSync\<close> is false, otherwise its
  text.
\<close>

definition load_token ::
  "(string \<Rightarrow> json option) \<Rightarrow> string option \<Rightarrow> credential_missing + json" where
  "load_token JSON_parse file =
     (case file of
        None \<Rightarrow> Inl TokenFileMissing
      | Some tokenData \<Rightarrow>
          (let accessToken = read_token JSON_parse tokenData in
           if \<not> truthy_json accessToken then Inl TokenNotInFile
           else (case accessToken of None \<Rightarrow> Inl TokenNotInFile | Some t \<Rightarrow> Inr t)))"

text \<open>\<^verbatim>\<open>x.trim()\<close> on a parsed value: only a string has the method.\<close>

definition trim_value :: "json \<Rightarrow> js_error + string" where
  "trim_value v =
     (case v of JStr s \<Rightarrow> Inr (trim s) | _ \<Rightarrow> Inl (TypeError ''trim is not a function''))"

text \<open>
  Token loading of \<^verbatim>\<open>listSections\<close>: the file text is trimmed first, the token is
  \<^verbatim>\<open>(parsedToken.token || parsedToken.access_token || '').trim()\<close>, and every exception
  of the \<^verbatim>\<open>try\<close> block falls back to the trimmed file text.
\<close>

definition read_token_listSections ::
  "(string \<Rightarrow> json option) \<Rightarrow> string \<Rightarrow> js_error + string" where
  "read_token_listSections JSON_parse tokenData =
     (case JSON_parse tokenData of
        None \<Rightarrow> Inl (Error ''SyntaxError'')
      | Some parsedToken \<Rightarrow>
          (case get_prop parsedToken ''token'' of
             Inl e \<Rightarrow> Inl e
           | Inr v1 \<Rightarrow>
               (case (if truthy_json v1 then Inr v1 else get_prop parsedToken ''access_token'') of
                  Inl e \<Rightarrow> Inl e
                | Inr v2 \<Rightarrow>
                    (case (if truthy_json v2 then v2 else Some (JStr [])) of
                       None \<Rightarrow> Inl (TypeError ''trim of undefined'')
                     | Some v \<Rightarrow> trim_value v))))"

definition load_token_listSections ::
  "(string \<Rightarrow> json option) \<Rightarrow> string option \<Rightarrow> credential_missing + string" where
  "load_token_listSections JSON_parse file =
     (case file of
        None \<Rightarrow> Inl TokenFileMissing
      | Some text \<Rightarrow>
          (let tokenData = trim text;
               accessToken = (case read_token_listSections JSON_parse tokenData of
                                Inl e \<Rightarrow> tokenData
                              | Inr t \<Rightarrow> t)
           in if accessToken = [] then Inl TokenNotInFile else Inr accessToken))"

text \<open>
  \<^verbatim>\<open>ensureGraphClient\<close> of the server. The module keeps the token and the client in two
  variables; the token is \<open>None\<close> for \<open>null\<close> and \<open>undefined\<close>. When no client exists
  yet, the token file is read again if it exists, and a falsy token is an error.
  The result is the exception thrown, if any, and the new values of the variables.
\<close>

record mcp_state =
  accessToken :: "json option"
  graphClient :: bool

definition ensureGraphClient ::
  "(string \<Rightarrow> json option) \<Rightarrow> string option \<Rightarrow> mcp_state \<Rightarrow> js_error option \<times> mcp_state" where
  "ensureGraphClient JSON_parse file st =
     (if \<not> graphClient st then
        (let st1 = (case file of
                      None \<Rightarrow> st
                    | Some tokenData \<Rightarrow> st\<lparr>accessToken := read_token JSON_parse tokenData\<rparr>)
         in if \<not> truthy_json (accessToken st1)
            then (Some (Error ''Access token not found. Please save access token first.''), st1)
            else (None, st1\<lparr>graphClient := True\<rparr>))
      else (None, st))"

text \<open>
  Values of \<^verbatim>\<open>JSON.parse\<close> on the file texts of the concrete runs below: the
  structured encodings, and the object with the member \<open>token\<close> set to \<open>true\<close>,
  are objects, \<open>null\<close> is the null value, and a bare token or white space is not
  JSON. Other texts are not used with it.
\<close>

definition quoted :: "string \<Rightarrow> string" where
  "quoted s = dq @ s @ dq"

definition sample_JSON_parse :: "string \<Rightarrow> json option" where
  "sample_JSON_parse s =
     (if s = ''{'' @ quoted ''token'' @ '':'' @ quoted ''abc'' @ ''}''
        then Some (JObj [(''token'', JStr ''abc'')])
      else if s = ''{'' @ quoted ''access_token'' @ '':'' @ quoted ''abc'' @ ''}''
        then Some (JObj [(''access_token'', JStr ''abc'')])
      else if s = ''{'' @ quoted ''user'' @ '':'' @ quoted ''abc'' @ ''}''
        then Some (JObj [(''user'', JStr ''abc'')])
      else if s = ''{'' @ quoted ''token'' @ '':true}''
        then Some (JObj [(''token'', JBool True)])
      else if s = ''null'' then Some JNull
      else None)"

text \<open>Two token files that are JSON objects without a \<open>token\<close> member.\<close>

definition file_access_token :: string where
  "file_access_token = ''{'' @ quoted ''access_token'' @ '':'' @ quoted ''abc'' @ ''}''"

definition file_user :: string where
  "file_user = ''{'' @ quoted ''user'' @ '':'' @ quoted ''abc'' @ ''}''"

text \<open>A token file whose \<open>token\<close> member is not a string.\<close>

definition file_token_true :: string where
  "file_token_true = ''{'' @ quoted ''token'' @ '':true}''"

section \<open>The Graph service\<close>

text \<open>Numbers inside template literals: decimal digits.\<close>

definition digit_char :: "nat \<Rightarrow> char" where
  "digit_char d = char_of (48 + d)"

fun show_nat :: "nat \<Rightarrow> string" where
  "show_nat n = (if n < 10 then [digit_char n] else show_nat (n div 10) @ [digit_char (n mod 10)])"

declare show_nat.simps [simp del]

definition show_int :: "int \<Rightarrow> string" where
  "show_int i = (if i < 0 then ''-'' @ show_nat (nat (- i)) else show_nat (nat i))"

text \<open>
  A collection response: \<^verbatim>\<open>response.value\<close> (possibly missing) and
  \<^verbatim>\<open>response['@odata.nextLink']\<close>. A section of a section list is read through its
  \<open>id\<close> only and is kept as a page record.
\<close>

record collection =
  resp_value :: "page list option"
  resp_nextLink :: jstr

text \<open>\<^verbatim>\<open>response.value || []\<close>\<close>

definition value_or_empty :: "collection \<Rightarrow> page list" where
  "value_or_empty r = (case resp_value r of None \<Rightarrow> [] | Some xs \<Rightarrow> xs)"

text \<open>
  The response of \<^verbatim>\<open>fetch\<close> for a content URL. Reading its text is folded into the
  request: a failure of \<^verbatim>\<open>response.text()\<close> is a failure of the request, both
  are thrown into the same \<^verbatim>\<open>catch\<close> with nothing done in between.
\<close>

record http_response =
  http_ok :: bool
  http_status :: nat
  http_statusText :: string
  http_text :: string

text \<open>
  The service is outside the program. It is a state machine with a state of any
  type \<open>'sv\<close>: each request returns a reply, or throws, and moves the state. The
  three kinds of request are the metadata of one page
  (\<^verbatim>\<open>client.api('/me/onenote/pages/ID').get()\<close>), a collection or a next link
  (\<^verbatim>\<open>client.api(url).get()\<close>), and the content of a page by \<^verbatim>\<open>fetch\<close> or by the
  client.
\<close>

record 'sv server =
  get_page :: "'sv \<Rightarrow> string \<Rightarrow> (js_error + page) \<times> 'sv"
  get_list :: "'sv \<Rightarrow> string \<Rightarrow> (js_error + collection) \<times> 'sv"
  fetch_url :: "'sv \<Rightarrow> string \<Rightarrow> (js_error + http_response) \<times> 'sv"

section \<open>Pagination\<close>

text \<open>
  The loop of the \<^verbatim>\<open>listPages\<close> and \<^verbatim>\<open>searchPages\<close> tools of the server, of
  search-pages.js and of the first list-pages.js:
  \<^verbatim>\<open>
    while (response['@odata.nextLink']) {
      response = await client.api(response['@odata.nextLink']).get();
      allValues = allValues.concat(response.value || []);
    }
  \<close>
  A request that throws leaves the loop with the exception. The loop need not end
  (the service may send next links for ever): the result is \<open>None\<close> then.
\<close>

partial_function (option) follow_links ::
  "'sv server \<Rightarrow> 'sv \<Rightarrow> collection \<Rightarrow> page list \<Rightarrow> ((js_error + page list) \<times> 'sv) option" where
  "follow_links srv s response allValues =
     (if truthy (resp_nextLink response) then
        (case get_list srv s (or_empty (resp_nextLink response)) of
           (Inl e, s') \<Rightarrow> Some (Inl e, s')
         | (Inr response', s') \<Rightarrow>
             follow_links srv s' response' (allValues @ value_or_empty response'))
      else Some (Inr allValues, s))"

text \<open>Lines written to the console: \<^verbatim>\<open>console.log\<close> and \<^verbatim>\<open>console.error\<close>.\<close>

datatype console_line = Log string | Err string

text \<open>
  The loop of the second list-pages.js (lines 211 to 226 and 265 to 280), which
  catches the exception of a request, reports it and stops:
  \<^verbatim>\<open>
    while (response['@odata.nextLink']) {
      batchNum++;
      try {
        await new Promise(resolve => setTimeout(resolve, 100));
        response = await client.api(response['@odata.nextLink']).get();
        const newPages = response.value || [];
        allPages = allPages.concat(newPages);
        console.log(`Batch ${batchNum}: Fetched ${newPages.length} pages (total: ${allPages.length})`);
      } catch (error) {
        console.error(`Error fetching batch ${batchNum}:`, error.message);
        console.log(`Continuing with ${allPages.length} pages fetched so far...`);
        break;
      }
    }
  \<close>
  The pause has no effect on the result. The function returns the pages, the batch
  number, the console lines and the state of the service.
\<close>

partial_function (option) batch_loop ::
  "'sv server \<Rightarrow> 'sv \<Rightarrow> collection \<Rightarrow> page list \<Rightarrow> nat \<Rightarrow> console_line list \<Rightarrow>
     (page list \<times> nat \<times> console_line list \<times> 'sv) option" where
  "batch_loop srv s response allPages batchNum out =
     (if truthy (resp_nextLink response) then
        (case get_list srv s (or_empty (resp_nextLink response)) of
           (Inl e, s') \<Rightarrow>
             Some (allPages, batchNum + 1,
                   out @ [Err (''Error fetching batch '' @ show_nat (batchNum + 1) @ '': '' @ message e),
                          Log (''Continuing with '' @ show_nat (length allPages)
                               @ '' pages fetched so far...'')],
                   s')
         | (Inr response', s') \<Rightarrow>
             batch_loop srv s' response' (allPages @ value_or_empty response') (batchNum + 1)
               (out @ [Log (''Batch '' @ show_nat (batchNum + 1) @ '': Fetched ''
                            @ show_nat (length (value_or_empty response')) @ '' pages (total: ''
                            @ show_nat (length (allPages @ value_or_empty response')) @ '')'')]))
      else Some (allPages, batchNum, out, s))"

text \<open>
  The accumulation of the second list-pages.js around that loop (lines 204 to 228
  and 258 to 282), from the first response on.
\<close>

definition fetch_batches ::
  "'sv server \<Rightarrow> 'sv \<Rightarrow> bool \<Rightarrow> collection \<Rightarrow> (page list \<times> console_line list \<times> 'sv) option" where
  "fetch_batches srv s fetchAll pagesResponse =
     (let allPages = value_or_empty pagesResponse in
      if fetchAll \<and> truthy (resp_nextLink pagesResponse) then
        (case batch_loop srv s pagesResponse allPages 1
                [Log (''Batch 1: Fetched '' @ show_nat (length allPages) @ '' pages'')] of
           None \<Rightarrow> None
         | Some (allPages', batchNum, out, s') \<Rightarrow>
             Some (allPages',
                   out @ [Log ([CHR 0x0A] @ ''Completed! Fetched '' @ show_nat (length allPages')
                               @ '' total pages in '' @ show_nat batchNum @ '' batches'')],
                   s'))
      else Some (allPages, [], s))"

text \<open>
  The accumulation of the first list-pages.js (lines 107 to 115): the same guard,
  the loop without a \<^verbatim>\<open>catch\<close>.
\<close>

definition fetch_all_plain ::
  "'sv server \<Rightarrow> 'sv \<Rightarrow> bool \<Rightarrow> collection \<Rightarrow> ((js_error + page list) \<times> 'sv) option" where
  "fetch_all_plain srv s fetchAll pagesResponse =
     (let allPages = value_or_empty pagesResponse in
      if fetchAll \<and> truthy (resp_nextLink pagesResponse)
      then follow_links srv s pagesResponse allPages
      else Some (Inr allPages, s))"

section \<open>The listPages and searchPages tools of the server\<close>

record listPages_params =
  p_sectionId :: jstr
  p_top :: "real option"
  p_nextLink :: jstr
  p_fetchAll :: bool

text \<open>
  The object \<open>out\<close> of \<^verbatim>\<open>listPages\<close>; the tool returns its JSON text
  (\<^verbatim>\<open>JSON.stringify(out)\<close>).
\<close>

record list_out =
  out_value :: "page list"
  out_nextLink :: jstr

text \<open>\<^verbatim>\<open>hasMore ? response["@odata.nextLink"] : undefined\<close>\<close>

definition next_or_undefined :: "collection \<Rightarrow> jstr" where
  "next_or_undefined response =
     (if truthy (resp_nextLink response) then resp_nextLink response else Undefined)"

text \<open>The URL of a section's pages, with the page size capped at 999.\<close>

definition pages_url :: "jstr \<Rightarrow> real option \<Rightarrow> string" where
  "pages_url sectionId top' =
     (let url = ''/me/onenote/sections/'' @ template sectionId @ ''/pages'' in
      case top' of
        None \<Rightarrow> url
      | Some t \<Rightarrow>
          if t > 0
          then url @ (if str_includes url ''?'' then ''&'' else ''?'') @ ''$top=''
                 @ show_int (min \<lfloor>t\<rfloor> 999)
          else url)"

text \<open>
  \<^verbatim>\<open>listPages\<close>, lines 370 to 395: the first request for the section's pages, then
  all further pages when \<open>fetchAll\<close> is set, otherwise the one page and its next
  link.
\<close>

definition listPages_section ::
  "'sv server \<Rightarrow> listPages_params \<Rightarrow> jstr \<Rightarrow> 'sv \<Rightarrow> ((js_error + list_out) \<times> 'sv) option" where
  "listPages_section srv params sectionId s =
     (case get_list srv s (pages_url sectionId (p_top params)) of
        (Inl e, s1) \<Rightarrow> Some (Inl e, s1)
      | (Inr response, s1) \<Rightarrow>
          (let allValues = value_or_empty response in
           if p_fetchAll params then
             (case follow_links srv s1 response allValues of
                None \<Rightarrow> None
              | Some (Inl e, s2) \<Rightarrow> Some (Inl e, s2)
              | Some (Inr allValues', s2) \<Rightarrow>
                  Some (Inr \<lparr>out_value = allValues', out_nextLink = Undefined\<rparr>, s2))
           else Some (Inr \<lparr>out_value = allValues, out_nextLink = next_or_undefined response\<rparr>,
                      s1)))"

text \<open>
  The \<^verbatim>\<open>try\<close> block of \<^verbatim>\<open>listPages\<close> after \<^verbatim>\<open>ensureGraphClient\<close>, lines 331 to 395:
  a given next link is requested directly; without a section id the first section
  of the account is used.
\<close>

definition listPages_try ::
  "'sv server \<Rightarrow> listPages_params \<Rightarrow> 'sv \<Rightarrow> ((js_error + list_out) \<times> 'sv) option" where
  "listPages_try srv params s =
     (if truthy (p_nextLink params) then
        (case get_list srv s (or_empty (p_nextLink params)) of
           (Inl e, s1) \<Rightarrow> Some (Inl e, s1)
         | (Inr response, s1) \<Rightarrow>
             Some (Inr \<lparr>out_value = value_or_empty response,
                        out_nextLink = next_or_undefined response\<rparr>, s1))
      else if \<not> truthy (p_sectionId params) then
        (case get_list srv s ''/me/onenote/sections'' of
           (Inl e, s1) \<Rightarrow> Some (Inl e, s1)
         | (Inr sectionsResponse, s1) \<Rightarrow>
             (case resp_value sectionsResponse of
                None \<Rightarrow>
                  Some (Inl (TypeError (''Cannot read properties of undefined''
                                        @ reading ''length'')), s1)
              | Some [] \<Rightarrow> Some (Inr \<lparr>out_value = [], out_nextLink = Undefined\<rparr>, s1)
              | Some (section # _) \<Rightarrow> listPages_section srv params (page_id section) s1))
      else listPages_section srv params (p_sectionId params) s)"

text \<open>
  The tool: \<^verbatim>\<open>ensureGraphClient\<close>, the \<^verbatim>\<open>try\<close> block, and the \<^verbatim>\<open>catch\<close> that throws
  \<^verbatim>\<open>new Error(`Failed to list pages: ${error.message}`)\<close> for every exception.
\<close>

definition listPages_tool ::
  "(string \<Rightarrow> json option) \<Rightarrow> string option \<Rightarrow> 'sv server \<Rightarrow> listPages_params \<Rightarrow>
     mcp_state \<times> 'sv \<Rightarrow> ((js_error + list_out) \<times> mcp_state \<times> 'sv) option" where
  "listPages_tool JSON_parse file srv params w =
     (case ensureGraphClient JSON_parse file (fst w) of
        (Some e, st) \<Rightarrow> Some (Inl (Error (''Failed to list pages: '' @ message e)), st, snd w)
      | (None, st) \<Rightarrow>
          (case listPages_try srv params (snd w) of
             None \<Rightarrow> None
           | Some (Inl e, s') \<Rightarrow> Some (Inl (Error (''Failed to list pages: '' @ message e)), st, s')
           | Some (Inr out, s') \<Rightarrow> Some (Inr out, st, s')))"

record searchPages_params =
  q_searchTerm :: jstr
  q_sectionId :: jstr

text \<open>
  \<^verbatim>\<open>searchPages\<close>, lines 758 to 805: all pages by the same loop, then the pages whose
  title contains the search term when one is given.
\<close>

definition searchPages_try ::
  "'sv server \<Rightarrow> searchPages_params \<Rightarrow> 'sv \<Rightarrow> ((js_error + page list) \<times> 'sv) option" where
  "searchPages_try srv params s =
     (let apiUrl = (if truthy (q_sectionId params)
                    then ''/me/onenote/sections/'' @ template (q_sectionId params) @ ''/pages''
                    else ''/me/onenote/pages'') in
      case get_list srv s apiUrl of
        (Inl e, s1) \<Rightarrow> Some (Inl e, s1)
      | (Inr response, s1) \<Rightarrow>
          (case follow_links srv s1 response (value_or_empty response) of
             None \<Rightarrow> None
           | Some (Inl e, s2) \<Rightarrow> Some (Inl e, s2)
           | Some (Inr pages, s2) \<Rightarrow>
               if truthy (q_searchTerm params) \<and> length (trim (or_empty (q_searchTerm params))) > 0
               then (let searchTerm = toLowerCase (or_empty (q_searchTerm params)) in
                     Some (Inr (filter (\<lambda>page. truthy (title page)
                                  \<and> str_includes (toLowerCase (or_empty (title page))) searchTerm)
                                  pages), s2))
               else Some (Inr pages, s2)))"

definition searchPages_tool ::
  "(string \<Rightarrow> json option) \<Rightarrow> string option \<Rightarrow> 'sv server \<Rightarrow> searchPages_params \<Rightarrow>
     mcp_state \<times> 'sv \<Rightarrow> ((js_error + page list) \<times> mcp_state \<times> 'sv) option" where
  "searchPages_tool JSON_parse file srv params w =
     (case ensureGraphClient JSON_parse file (fst w) of
        (Some e, st) \<Rightarrow> Some (Inl (Error (''Failed to search pages: '' @ message e)), st, snd w)
      | (None, st) \<Rightarrow>
          (case searchPages_try srv params (snd w) of
             None \<Rightarrow> None
           | Some (Inl e, s') \<Rightarrow> Some (Inl (Error (''Failed to search pages: '' @ message e)), st, s')
           | Some (Inr pages, s') \<Rightarrow> Some (Inr pages, st, s')))"

text \<open>
  The pages a service sends after a first response \<open>r\<close>, when every request
  succeeds: \<open>serves srv s r rs s'\<close> holds when, from state \<open>s\<close>, following the next
  link of \<open>r\<close> and of each later response yields the responses \<open>rs\<close> in this order,
  every response but the last one carries a next link, and the service ends in
  state \<open>s'\<close>.
\<close>

fun serves :: "'sv server \<Rightarrow> 'sv \<Rightarrow> collection \<Rightarrow> collection list \<Rightarrow> 'sv \<Rightarrow> bool" where
  "serves srv s r [] s' = (\<not> truthy (resp_nextLink r) \<and> s' = s)"
| "serves srv s r (r' # rs) s' =
     (truthy (resp_nextLink r) \<and>
      (case get_list srv s (or_empty (resp_nextLink r)) of
         (Inl e, s1) \<Rightarrow> False
       | (Inr r'', s1) \<Rightarrow> r'' = r' \<and> serves srv s1 r' rs s'))"

text \<open>
  A scripted service for the concrete runs: its state holds the replies still to
  give, one queue for each kind of request; a request takes the next reply of its
  queue, and throws when the queue is empty.
\<close>

record script =
  page_replies :: "(js_error + page) list"
  list_replies :: "(js_error + collection) list"
  content_replies :: "(js_error + http_response) list"

definition scripted :: "script server" where
  "scripted =
     \<lparr>get_page = (\<lambda>s u. case page_replies s of
                     [] \<Rightarrow> (Inl (Error ''no reply''), s)
                   | r # rs \<Rightarrow> (r, s\<lparr>page_replies := rs\<rparr>)),
      get_list = (\<lambda>s u. case list_replies s of
                     [] \<Rightarrow> (Inl (Error ''no reply''), s)
                   | r # rs \<Rightarrow> (r, s\<lparr>list_replies := rs\<rparr>)),
      fetch_url = (\<lambda>s u. case content_replies s of
                     [] \<Rightarrow> (Inl (Error ''no reply''), s)
                   | r # rs \<Rightarrow> (r, s\<lparr>content_replies := rs\<rparr>))\<rparr>"

text \<open>Three sample responses; the third repeats a record of the first.\<close>

definition page_a :: page where
  "page_a = \<lparr>page_id = Str ''a'', title = Str ''Alpha'', lastModifiedDateTime = Undefined\<rparr>"

definition page_b :: page where
  "page_b = \<lparr>page_id = Str ''b'', title = Str ''Beta'', lastModifiedDateTime = Undefined\<rparr>"

definition page_c :: page where
  "page_c = \<lparr>page_id = Str ''c'', title = Str ''Gamma'', lastModifiedDateTime = Undefined\<rparr>"

definition resp_1 :: collection where
  "resp_1 = \<lparr>resp_value = Some [page_b, page_a], resp_nextLink = Str ''https://graph/next2''\<rparr>"

definition resp_2 :: collection where
  "resp_2 = \<lparr>resp_value = Some [page_c], resp_nextLink = Str ''https://graph/next3''\<rparr>"

definition resp_3 :: collection where
  "resp_3 = \<lparr>resp_value = Some [page_b], resp_nextLink = Undefined\<rparr>"

text \<open>
  The same when the request after the responses \<open>rs\<close> throws \<open>e\<close>: every response,
  the last one included, carries a next link.
\<close>

fun serves_until_failure ::
  "'sv server \<Rightarrow> 'sv \<Rightarrow> collection \<Rightarrow> collection list \<Rightarrow> js_error \<Rightarrow> 'sv \<Rightarrow> bool" where
  "serves_until_failure srv s r [] e s' =
     (truthy (resp_nextLink r) \<and> get_list srv s (or_empty (resp_nextLink r)) = (Inl e, s'))"
| "serves_until_failure srv s r (r' # rs) e s' =
     (truthy (resp_nextLink r) \<and>
      (case get_list srv s (or_empty (resp_nextLink r)) of
         (Inl e', s1) \<Rightarrow> False
       | (Inr r'', s1) \<Rightarrow> r'' = r' \<and> serves_until_failure srv s1 r' rs e s'))"

text \<open>A script of collection replies only, and the parameters of a full listing.\<close>

definition replies :: "(js_error + collection) list \<Rightarrow> script" where
  "replies rs = \<lparr>page_replies = [], list_replies = rs, content_replies = []\<rparr>"

definition list_all_params :: listPages_params where
  "list_all_params =
     \<lparr>p_sectionId = Str ''sec'', p_top = None, p_nextLink = Undefined, p_fetchAll = True\<rparr>"

definition search_all_params :: searchPages_params where
  "search_all_params = \<lparr>q_searchTerm = Undefined, q_sectionId = Str ''sec''\<rparr>"

definition client_ready :: mcp_state where
  "client_ready = \<lparr>accessToken = Some (JStr ''abc''), graphClient = True\<rparr>"

section \<open>Observing the requests\<close>

text \<open>
  To state which requests a run issues, the service is wrapped: \<open>logged srv\<close>
  behaves as \<open>srv\<close> and appends every request it receives to a list kept beside the
  state of \<open>srv\<close>.
\<close>

datatype request = PageRequest string | ListRequest string | ContentRequest string

definition logged :: "'sv server \<Rightarrow> ('sv \<times> request list) server" where
  "logged srv =
     \<lparr>get_page = (\<lambda>sl u. case get_page srv (fst sl) u of
                     (r, s') \<Rightarrow> (r, (s', snd sl @ [PageRequest u]))),
      get_list = (\<lambda>sl u. case get_list srv (fst sl) u of
                     (r, s') \<Rightarrow> (r, (s', snd sl @ [ListRequest u]))),
      fetch_url = (\<lambda>sl u. case fetch_url srv (fst sl) u of
                     (r, s') \<Rightarrow> (r, (s', snd sl @ [ContentRequest u])))\<rparr>"

section \<open>The single-record retrievers\<close>

text \<open>The two URLs of a page.\<close>

definition metadata_path :: "string \<Rightarrow> string" where
  "metadata_path pageId = ''/me/onenote/pages/'' @ pageId"

definition content_url :: "string \<Rightarrow> string" where
  "content_url pageId = ''https://graph.microsoft.com/v1.0/me/onenote/pages/'' @ pageId @ ''/content''"

text \<open>\<^verbatim>\<open>new Error(`HTTP error! Status: ${response.status} ${response.statusText}`)\<close>\<close>

definition http_error :: "http_response \<Rightarrow> js_error" where
  "http_error response =
     Error (''HTTP error! Status: '' @ show_nat (http_status response) @ '' ''
            @ http_statusText response)"

text \<open>A reason inside a template literal.\<close>

definition template_reason :: "string option \<Rightarrow> string" where
  "template_reason r = (case r of None \<Rightarrow> ''undefined'' | Some t \<Rightarrow> t)"

record downloadFile_params =
  d_pageId :: jstr
  d_filePath :: jstr

text \<open>
  The \<^verbatim>\<open>try\<close> block of the \<^verbatim>\<open>downloadFile\<close> tool after \<^verbatim>\<open>ensureGraphClient\<close>
  (onenote-mcp.mjs, lines 586 to 650). The disk is a map from file paths to
  contents; \<^verbatim>\<open>fs.writeFileSync\<close> is taken to succeed. The result is the text returned
  or the exception, the state of the service and the disk.
\<close>

definition downloadFile_try ::
  "(string \<Rightarrow> int option) \<Rightarrow> (int \<Rightarrow> string) \<Rightarrow> 'sv server \<Rightarrow> downloadFile_params \<Rightarrow>
     'sv \<times> (string \<rightharpoonup> string) \<Rightarrow> (js_error + string) \<times> 'sv \<times> (string \<rightharpoonup> string)" where
  "downloadFile_try parse toISO srv params w =
     (let pageId = d_pageId params; filePath = d_filePath params in
      if \<not> truthy pageId then (Inl (Error ''Page ID is required''), w)
      else if \<not> truthy filePath then (Inl (Error ''File path is required''), w)
      else
        (case get_page srv (fst w) (metadata_path (or_empty pageId)) of
           (Inl e, s1) \<Rightarrow> (Inl e, s1, snd w)
         | (Inr page, s1) \<Rightarrow>
             (case shouldSkipPage parse toISO page of
                Inl e \<Rightarrow> (Inl e, s1, snd w)
              | Inr skipCheck \<Rightarrow>
                  if skip skipCheck
                  then (Inr (''Page skipped: '' @ template_reason (reason skipCheck)), s1, snd w)
                  else
                    (case fetch_url srv s1 (content_url (or_empty pageId)) of
                       (Inl e, s2) \<Rightarrow> (Inl e, s2, snd w)
                     | (Inr response, s2) \<Rightarrow>
                         if \<not> http_ok response then (Inl (http_error response), s2, snd w)
                         else
                           (let content = http_text response in
                            (Inr (''Page '' @ dq @ template (title page) @ dq
                                  @ '' successfully downloaded to '' @ or_empty filePath
                                  @ '' ('' @ show_nat (length content) @ '' characters)''),
                             s2, (snd w)(or_empty filePath \<mapsto> content)))))))"

text \<open>
  The tool: every exception is thrown again as
  \<^verbatim>\<open>new Error(`Failed to download file: ${error.message}`)\<close>.
\<close>

definition downloadFile_tool ::
  "(string \<Rightarrow> json option) \<Rightarrow> string option \<Rightarrow> (string \<Rightarrow> int option) \<Rightarrow> (int \<Rightarrow> string) \<Rightarrow>
     'sv server \<Rightarrow> downloadFile_params \<Rightarrow> mcp_state \<times> 'sv \<times> (string \<rightharpoonup> string) \<Rightarrow>
     (js_error + string) \<times> mcp_state \<times> 'sv \<times> (string \<rightharpoonup> string)" where
  "downloadFile_tool JSON_parse file parse toISO srv params w =
     (case ensureGraphClient JSON_parse file (fst w) of
        (Some e, st) \<Rightarrow> (Inl (Error (''Failed to download file: '' @ message e)), st, snd w)
      | (None, st) \<Rightarrow>
          (case downloadFile_try parse toISO srv params (snd w) of
             (Inl e, w') \<Rightarrow> (Inl (Error (''Failed to download file: '' @ message e)), st, w')
           | (Inr text, w') \<Rightarrow> (Inr text, st, w')))"

text \<open>
  \<^verbatim>\<open>getAccessToken\<close> of get-page.js: reading a file that does not exist throws, and
  the \<^verbatim>\<open>catch\<close> returns \<open>null\<close>.
\<close>

definition getAccessToken :: "(string \<Rightarrow> json option) \<Rightarrow> string option \<Rightarrow> json option" where
  "getAccessToken JSON_parse file =
     (case file of None \<Rightarrow> None | Some tokenData \<Rightarrow> read_token JSON_parse tokenData)"

text \<open>
  \<^verbatim>\<open>page.title.replace(/[^a-z0-9]/gi, '_').toLowerCase()\<close>; a title that is not a
  string has no \<^verbatim>\<open>replace\<close>.
\<close>

definition is_alnum :: "char \<Rightarrow> bool" where
  "is_alnum c =
     (let n = (of_char c :: nat) in
      (48 \<le> n \<and> n \<le> 57) \<or> (65 \<le> n \<and> n \<le> 90) \<or> (97 \<le> n \<and> n \<le> 122))"

definition safeFileName :: "jstr \<Rightarrow> js_error + string" where
  "safeFileName t =
     (case t of
        Str s \<Rightarrow> Inr (toLowerCase (map (\<lambda>c. if is_alnum c then c else CHR ''_'') s))
      | Undefined \<Rightarrow>
          Inl (TypeError (''Cannot read properties of undefined'' @ reading ''replace''))
      | Null \<Rightarrow> Inl (TypeError (''Cannot read properties of null'' @ reading ''replace'')))"

text \<open>How a run of get-page.js ends.\<close>

datatype cli_outcome = NoToken | NotDownloaded | Saved string | Caught js_error

text \<open>
  \<^verbatim>\<open>getPageContent\<close> of get-page.js (src/unnamed/part_000, lines 153 to 223), for the
  page id of the command line (a non-empty string). The disk is the directory
  \<open>output\<close>: a map from file names to contents. The result is the outcome, the
  console lines of the filter, the state of the service and the disk.
\<close>

definition getPageContent ::
  "(string \<Rightarrow> json option) \<Rightarrow> string option \<Rightarrow> (string \<Rightarrow> int option) \<Rightarrow> (int \<Rightarrow> string) \<Rightarrow>
     'sv server \<Rightarrow> string \<Rightarrow> 'sv \<times> (string \<rightharpoonup> string) \<Rightarrow>
     cli_outcome \<times> string list \<times> 'sv \<times> (string \<rightharpoonup> string)" where
  "getPageContent JSON_parse file parse toISO srv pageId w =
     (if \<not> truthy_json (getAccessToken JSON_parse file) then (NoToken, [], w)
      else
        (case get_page srv (fst w) (metadata_path pageId) of
           (Inl e, s1) \<Rightarrow> (Caught e, [], s1, snd w)
         | (Inr page, s1) \<Rightarrow>
             (case shouldSkipPage_cli parse toISO page of
                Inl e \<Rightarrow> (Caught e, [], s1, snd w)
              | Inr (out, True) \<Rightarrow>
                  (NotDownloaded, out @ [''Page will not be downloaded due to filtering rules.''],
                   s1, snd w)
              | Inr (out, False) \<Rightarrow>
                  (case fetch_url srv s1 (content_url pageId) of
                     (Inl e, s2) \<Rightarrow> (Caught e, out, s2, snd w)
                   | (Inr response, s2) \<Rightarrow>
                       if \<not> http_ok response then (Caught (http_error response), out, s2, snd w)
                       else
                         (case safeFileName (title page) of
                            Inl e \<Rightarrow> (Caught e, out, s2, snd w)
                          | Inr name \<Rightarrow>
                              (let outputPath = name @ ''_'' @ take 8 pageId @ ''.html'' in
                               (Saved outputPath, out, s2,
                                (snd w)(outputPath \<mapsto> http_text response))))))))"

section \<open>The bulk export driver\<close>

text \<open>
  What download-all-pages.js takes from the runtime: the time value of a timestamp
  string (\<^verbatim>\<open>new Date(s)\<close>), the calendar date of a time value in local time
  (\<^verbatim>\<open>getFullYear\<close>, \<^verbatim>\<open>getMonth\<close> from 0, \<^verbatim>\<open>getDate\<close>), and, for fast mode, whether the
  eight digits of a file name are a date at most \<^verbatim>\<open>FAST_MODE_DAYS\<close> = 30 days before
  now (\<^verbatim>\<open>new Date(year, month, day) >= cutoffDate\<close>, which depends on the clock).
\<close>

record runtime =
  rt_parse :: "string \<Rightarrow> int option"
  rt_local_date :: "int \<Rightarrow> int \<times> nat \<times> nat"
  rt_recent :: "string \<Rightarrow> bool"

definition MAX_CONSECUTIVE_FAILURES :: nat where
  "MAX_CONSECUTIVE_FAILURES = 10"

text \<open>\<^verbatim>\<open>String(n).padStart(2, '0')\<close>\<close>

definition padStart2 :: "string \<Rightarrow> string" where
  "padStart2 t = replicate (2 - length t) CHR ''0'' @ t"

text \<open>
  \<^verbatim>\<open>formatDate\<close>: year, month and day of the local date. An invalid date gives
  \<open>NaN\<close> three times.
\<close>

definition formatDate :: "runtime \<Rightarrow> jstr \<Rightarrow> string" where
  "formatDate rt dateString =
     (case Date_new (rt_parse rt) dateString of
        None \<Rightarrow> ''NaNNaNNaN''
      | Some t \<Rightarrow>
          (case rt_local_date rt t of
             (year, month, day) \<Rightarrow>
               show_int year @ padStart2 (show_nat (month + 1)) @ padStart2 (show_nat day)))"

text \<open>\<^verbatim>\<open>sanitizeFilename\<close>: each of \<^verbatim>\<open>< > : " / \ | ? *\<close> becomes an underscore.\<close>

definition sanitizeFilename :: "string \<Rightarrow> string" where
  "sanitizeFilename filename =
     map (\<lambda>c. if c \<in> set [CHR ''<'', CHR ''>'', CHR '':'', CHR 0x22, CHR ''/'', CHR 0x5C,
                             CHR ''|'', CHR ''?'', CHR ''*'']
               then CHR ''_'' else c) filename"

text \<open>
  The file system of the driver: the output directory (\<open>None\<close> when it does not
  exist, otherwise its files by name, in the order \<^verbatim>\<open>readdirSync\<close> lists them) and
  the failure log. Writing a file is taken to succeed.
\<close>

record 'sv export_world =
  service :: 'sv
  output_dir :: "(string \<times> string) list option"
  failed_log :: "string option"

text \<open>\<^verbatim>\<open>fs.existsSync(path.join(OUTPUT_DIR, filename))\<close>\<close>

definition file_exists :: "(string \<times> string) list option \<Rightarrow> string \<Rightarrow> bool" where
  "file_exists dir filename =
     (case dir of None \<Rightarrow> False | Some entries \<Rightarrow> filename \<in> fst ` set entries)"

text \<open>
  \<^verbatim>\<open>mkdirSync\<close> when the directory is missing, then \<^verbatim>\<open>writeFileSync\<close>: the file is
  replaced when it exists and added otherwise.
\<close>

definition write_file ::
  "(string \<times> string) list option \<Rightarrow> string \<Rightarrow> string \<Rightarrow> (string \<times> string) list option" where
  "write_file dir filename content =
     (let entries = (case dir of None \<Rightarrow> [] | Some es \<Rightarrow> es) in
      if filename \<in> fst ` set entries
      then Some (map (\<lambda>(n, c). if n = filename then (n, content) else (n, c)) entries)
      else Some (entries @ [(filename, content)]))"

text \<open>
  The pattern of \<^verbatim>\<open>hasRecentFileByTitle\<close>: the sanitized title, two hyphens, eight
  digits and \<open>.html\<close>. The result is the eight digits of a file name that matches.
\<close>

definition is_digit :: "char \<Rightarrow> bool" where
  "is_digit c = (let n = (of_char c :: nat) in 48 \<le> n \<and> n \<le> 57)"

definition dated_name :: "string \<Rightarrow> string \<Rightarrow> string option" where
  "dated_name sanitizedTitle file =
     (let n = length sanitizedTitle; dateStr = take 8 (drop (n + 2) file) in
      if take n file = sanitizedTitle \<and> take 2 (drop n file) = ''--''
         \<and> length dateStr = 8 \<and> list_all is_digit dateStr
         \<and> drop (n + 10) file = ''.html''
      then Some dateStr else None)"

text \<open>
  \<^verbatim>\<open>hasRecentFileByTitle\<close>: the first file of the output directory that matches the
  pattern and carries a recent date, if any.
\<close>

definition hasRecentFileByTitle ::
  "runtime \<Rightarrow> (string \<times> string) list option \<Rightarrow> string \<Rightarrow> string option" where
  "hasRecentFileByTitle rt dir pageTitle =
     (case dir of
        None \<Rightarrow> None
      | Some entries \<Rightarrow>
          find (\<lambda>file. case dated_name (sanitizeFilename pageTitle) file of
                          None \<Rightarrow> False
                        | Some dateStr \<Rightarrow> rt_recent rt dateStr)
               (map fst entries))"

text \<open>The three results of \<^verbatim>\<open>downloadPage\<close>:
  \<^verbatim>\<open>{ success: true, skipped: true, reason }\<close>,
  \<^verbatim>\<open>{ success: true, skipped: false, filename }\<close> and
  \<^verbatim>\<open>{ success: false, error }\<close>.\<close>

datatype dl_result = Skipped string | Downloaded string | Failed string

text \<open>The \<^verbatim>\<open>try\<close> block of \<^verbatim>\<open>downloadPage\<close> (lines 120 to 181).\<close>

definition downloadPage_try ::
  "runtime \<Rightarrow> 'sv server \<Rightarrow> string \<Rightarrow> string \<Rightarrow> bool \<Rightarrow> 'sv export_world \<Rightarrow>
     (js_error + dl_result) \<times> 'sv export_world" where
  "downloadPage_try rt srv pageId pageTitle fastMode w =
     (case (if fastMode then hasRecentFileByTitle rt (output_dir w) pageTitle else None) of
        Some recentFile \<Rightarrow> (Inr (Skipped ''fast mode - recent file exists''), w)
      | None \<Rightarrow>
          (case get_page srv (service w) (metadata_path pageId) of
             (Inl e, s1) \<Rightarrow> (Inl e, w\<lparr>service := s1\<rparr>)
           | (Inr page, s1) \<Rightarrow>
               if shouldSkipByDate (rt_parse rt) page
               then (Inr (Skipped ''old date''), w\<lparr>service := s1\<rparr>)
               else
                 (let formattedDate = formatDate rt (lastModifiedDateTime page);
                      sanitizedTitle = sanitizeFilename pageTitle;
                      filename = sanitizedTitle @ ''--'' @ formattedDate @ ''.html''
                  in if file_exists (output_dir w) filename
                     then (Inr (Skipped ''already exists''), w\<lparr>service := s1\<rparr>)
                     else
                       (case fetch_url srv s1 (content_url pageId) of
                          (Inl e, s2) \<Rightarrow> (Inl e, w\<lparr>service := s2\<rparr>)
                        | (Inr response, s2) \<Rightarrow>
                            if \<not> http_ok response
                            then (Inl (http_error response), w\<lparr>service := s2\<rparr>)
                            else (Inr (Downloaded filename),
                                  w\<lparr>service := s2,
                                    output_dir := write_file (output_dir w) filename
                                                    (http_text response)\<rparr>)))))"

text \<open>
  \<^verbatim>\<open>downloadPage\<close>: an exception of the \<^verbatim>\<open>try\<close> block is retried once
  (\<^verbatim>\<open>retryCount < 1\<close>), then it is the result \<open>Failed\<close>.
\<close>

function downloadPage ::
  "runtime \<Rightarrow> 'sv server \<Rightarrow> string \<Rightarrow> string \<Rightarrow> bool \<Rightarrow> nat \<Rightarrow> 'sv export_world \<Rightarrow>
     dl_result \<times> 'sv export_world" where
  "downloadPage rt srv pageId pageTitle fastMode retryCount w =
     (case downloadPage_try rt srv pageId pageTitle fastMode w of
        (Inr result, w') \<Rightarrow> (result, w')
      | (Inl e, w') \<Rightarrow>
          if retryCount < 1
          then downloadPage rt srv pageId pageTitle fastMode (retryCount + 1) w'
          else (Failed (message e), w'))"
  by pat_completeness auto
termination
  by (relation "measure (\<lambda>(rt, srv, pageId, pageTitle, fastMode, retryCount, w). 1 - retryCount)")
    auto

declare downloadPage.simps [simp del]

text \<open>An entry of the page list file: \<^verbatim>\<open>{ title, pageId }\<close>.\<close>

record manifest_entry =
  e_title :: string
  e_pageId :: string

text \<open>
  The variables of the loop of \<^verbatim>\<open>main\<close>. \<open>outcomes\<close> is not a variable of the
  script: it lists the result of every iteration made so far, for the statements
  about the loop.
\<close>

record progress =
  consecutiveFailures :: nat
  totalSuccess :: nat
  totalSkipped :: nat
  totalFailed :: nat
  failedPages :: "(string \<times> string \<times> string) list"
  outcomes :: "dl_result list"

definition progress_start :: progress where
  "progress_start =
     \<lparr>consecutiveFailures = 0, totalSuccess = 0, totalSkipped = 0, totalFailed = 0,
      failedPages = [], outcomes = []\<rparr>"

text \<open>
  The loop of \<^verbatim>\<open>main\<close> (lines 236 to 263), from the entry at hand on. The pause
  between two entries has no effect on the result.
\<close>

fun download_loop ::
  "runtime \<Rightarrow> 'sv server \<Rightarrow> bool \<Rightarrow> manifest_entry list \<Rightarrow> progress \<Rightarrow> 'sv export_world \<Rightarrow>
     progress \<times> 'sv export_world" where
  "download_loop rt srv fastMode [] pr w = (pr, w)"
| "download_loop rt srv fastMode (p # ps) pr w =
     (case downloadPage rt srv (e_pageId p) (e_title p) fastMode 0 w of
        (Skipped r, w1) \<Rightarrow>
          download_loop rt srv fastMode ps
            (pr\<lparr>consecutiveFailures := 0, totalSkipped := totalSkipped pr + 1,
                outcomes := outcomes pr @ [Skipped r]\<rparr>) w1
      | (Downloaded f, w1) \<Rightarrow>
          download_loop rt srv fastMode ps
            (pr\<lparr>consecutiveFailures := 0, totalSuccess := totalSuccess pr + 1,
                outcomes := outcomes pr @ [Downloaded f]\<rparr>) w1
      | (Failed err, w1) \<Rightarrow>
          (let pr1 = pr\<lparr>consecutiveFailures := consecutiveFailures pr + 1,
                         totalFailed := totalFailed pr + 1,
                         failedPages := failedPages pr @ [(e_title p, e_pageId p, err)],
                         outcomes := outcomes pr @ [Failed err]\<rparr>
           in if consecutiveFailures pr1 \<ge> MAX_CONSECUTIVE_FAILURES then (pr1, w1)
              else download_loop rt srv fastMode ps pr1 w1))"

text \<open>A line of the failure log, and the lines joined by line feeds.\<close>

definition failed_line :: "string \<times> string \<times> string \<Rightarrow> string" where
  "failed_line p = (case p of (t, pageId, err) \<Rightarrow> t @ '' -- '' @ pageId @ '' (Error: '' @ err @ '')'')"

fun join_lines :: "string list \<Rightarrow> string" where
  "join_lines [] = []"
| "join_lines [l] = l"
| "join_lines (l # ls) = l @ [CHR 0x0A] @ join_lines ls"

text \<open>\<^verbatim>\<open>pages.filter(p => !shouldSkipPageByTitle(p.title))\<close>\<close>

definition pagesToDownload :: "manifest_entry list \<Rightarrow> manifest_entry list" where
  "pagesToDownload pages = filter (\<lambda>p. \<not> shouldSkipPageByTitle (e_title p)) pages"

text \<open>
  \<^verbatim>\<open>main\<close>, from the entries read from the page list file on: the title filter, the
  loop, the failure log, and the numbers of the summary (entries skipped by title,
  and the counters).
\<close>

definition main ::
  "runtime \<Rightarrow> 'sv server \<Rightarrow> bool \<Rightarrow> manifest_entry list \<Rightarrow> 'sv export_world \<Rightarrow>
     (nat \<times> progress) \<times> 'sv export_world" where
  "main rt srv fastMode pages w =
     (let skippedByTitle = length pages - length (pagesToDownload pages) in
      case download_loop rt srv fastMode (pagesToDownload pages) progress_start w of
        (pr, w1) \<Rightarrow>
          ((skippedByTitle, pr),
           (if failedPages pr \<noteq> []
            then w1\<lparr>failed_log := Some (join_lines (map failed_line (failedPages pr)))\<rparr>
            else w1)))"

text \<open>
  Sample values of the runtime for the driver, in a UTC time zone: the local dates
  of the two sample timestamps, and a clock for which 1 June 2022 is recent.
\<close>

definition sample_local_date :: "int \<Rightarrow> int \<times> nat \<times> nat" where
  "sample_local_date t =
     (if t = 1622505600000 then (2021, 5, 1)
      else if t = 1654041600000 then (2022, 5, 1)
      else (1970, 0, 1))"

definition sample_recent :: "string \<Rightarrow> bool" where
  "sample_recent dateStr = (dateStr = ''20220601'')"

definition sample_rt :: runtime where
  "sample_rt = \<lparr>rt_parse = sample_parse, rt_local_date = sample_local_date,
                 rt_recent = sample_recent\<rparr>"

text \<open>A script of replies for one page: metadata replies and content replies.\<close>

definition page_script ::
  "(js_error + page) list \<Rightarrow> (js_error + http_response) list \<Rightarrow> script" where
  "page_script ps cs = \<lparr>page_replies = ps, list_replies = [], content_replies = cs\<rparr>"

definition html_reply :: http_response where
  "html_reply = \<lparr>http_ok = True, http_status = 200, http_statusText = ''OK'',
                  http_text = ''<html>notes</html>''\<rparr>"






text \<open>
  A page list of twelve entries, the world before a run against a service that
  fails every request, and the variables and the world after it.
\<close>

definition entry :: "nat \<Rightarrow> manifest_entry" where
  "entry n = \<lparr>e_title = ''Page '' @ show_nat n, e_pageId = ''id'' @ show_nat n\<rparr>"





section \<open>Properties of the string primitives\<close>

lemma includes_iff: "str_includes s k \<longleftrightarrow> (\<exists>p q. s = p @ k @ q)"
proof (induction s)
  case Nil
  then show ?case by auto
next
  case (Cons c cs)
  show ?case
  proof
    assume "str_includes (c # cs) k"
    then consider "prefix k (c # cs)" | "str_includes cs k" by auto
    then show "\<exists>p q. c # cs = p @ k @ q"
    proof cases
      case 1
      then obtain q where "c # cs = k @ q" by (auto simp: prefix_def)
      then have "c # cs = [] @ k @ q" by simp
      then show ?thesis by blast
    next
      case 2
      with Cons.IH obtain p q where "cs = p @ k @ q" by blast
      then have "c # cs = (c # p) @ k @ q" by simp
      then show ?thesis by blast
    qed
  next
    assume "\<exists>p q. c # cs = p @ k @ q"
    then obtain p q where e: "c # cs = p @ k @ q" by blast
    show "str_includes (c # cs) k"
    proof (cases p)
      case Nil
      with e have "prefix k (c # cs)" by (simp add: prefix_def)
      then show ?thesis by simp
    next
      case (Cons a p')
      with e have "cs = p' @ k @ q" by simp
      with Cons.IH have "str_includes cs k" by blast
      then show ?thesis by simp
    qed
  qed
qed

lemma toLowerCase_append: "toLowerCase (a @ b) = toLowerCase a @ toLowerCase b"
  by (simp add: toLowerCase_def)

lemma includes_lower:
  "t = u @ w @ v \<Longrightarrow> toLowerCase w = k \<Longrightarrow> str_includes (toLowerCase t) k"
  unfolding includes_iff by (auto simp: toLowerCase_append)

lemma or_empty_Str: "or_empty (Str t) = t"
  by (simp add: or_empty_def truthy_def)

text \<open>Rules that evaluate \<open>toLowerCase\<close> on a string literal.\<close>

lemmas lower_eval = toLowerCase_def toLowerCase_char_def char_of_def bit_0

section \<open>The inclusion filter\<close>

text \<open>
  C5, as the code has it. A title that contains the keyword \<open>private\<close> or \<open>(old)\<close> in
  any letter case (a part \<open>w\<close> of the title lower-cases to the keyword) is excluded
  by every variant of the filter: \<^verbatim>\<open>shouldSkipPage\<close> of the server, \<^verbatim>\<open>shouldSkipPage\<close> of
  the command-line retrievers and \<^verbatim>\<open>shouldSkipPageByTitle\<close> of the export driver. The
  reason text is one fixed wording for both keywords followed by the original
  title in double quotes: it quotes the title and does not name the keyword that
  matched.
\<close>

theorem title_keyword_excluded:
  assumes "title p = Str t" and "t = u @ w @ v"
    and "toLowerCase w = ''private'' \<or> toLowerCase w = ''(old)''"
  shows "shouldSkipPage parse toISO p =
           Inr \<lparr>skip = True,
                reason = Some (''Title contains excluded keyword: '' @ dq @ t @ dq)\<rparr>
         \<and> shouldSkipPage_cli parse toISO p =
           Inr ([''Skipping page: Title contains excluded keyword: '' @ dq @ t @ dq], True)
         \<and> shouldSkipPageByTitle t"
proof -
  from assms(2,3)
  have "str_includes (toLowerCase t) ''private'' \<or> str_includes (toLowerCase t) ''(old)''"
    using includes_lower by blast
  then show ?thesis
    using assms(1)
    by (auto simp: shouldSkipPage_def shouldSkipPage_cli_def shouldSkipPageByTitle_def
        or_empty_Str template_def Let_def)
qed

theorem title_keyword_excluded_witness:
  "shouldSkipPage sample_parse sample_toISO
     \<lparr>page_id = Str ''1'', title = Str ''project (OLD)'', lastModifiedDateTime = Undefined\<rparr> =
     Inr \<lparr>skip = True,
          reason = Some (''Title contains excluded keyword: '' @ dq @ ''project (OLD)'' @ dq)\<rparr>
   \<and> shouldSkipPage_cli sample_parse sample_toISO
     \<lparr>page_id = Str ''1'', title = Str ''project (OLD)'', lastModifiedDateTime = Undefined\<rparr> =
     Inr ([''Skipping page: Title contains excluded keyword: '' @ dq @ ''project (OLD)'' @ dq], True)
   \<and> shouldSkipPageByTitle ''project (OLD)''"
proof -
  have a: "title \<lparr>page_id = Str ''1'', title = Str ''project (OLD)'',
                  lastModifiedDateTime = Undefined\<rparr> = Str ''project (OLD)''"
    by simp
  have b: "''project (OLD)'' = ''project '' @ ''(OLD)'' @ []"
    by simp
  have c: "toLowerCase ''(OLD)'' = ''private'' \<or> toLowerCase ''(OLD)'' = ''(old)''"
    by (simp add: lower_eval)
  show ?thesis
    by (rule title_keyword_excluded [OF a b c])
qed

text \<open>
  C5, as the specification states it, fails: the reason would name the keyword
  that matched. For the titles \<open>Private Notes\<close> and \<open>project (OLD)\<close> the two reasons
  are the same wording around the title, and neither reason text contains the
  keyword of the exclusion set that matched.
\<close>

theorem reason_names_no_keyword:
  "shouldSkipPage sample_parse sample_toISO
     \<lparr>page_id = Str ''1'', title = Str ''Private Notes'', lastModifiedDateTime = Undefined\<rparr> =
     Inr \<lparr>skip = True,
          reason = Some (''Title contains excluded keyword: '' @ dq @ ''Private Notes'' @ dq)\<rparr>
   \<and> shouldSkipPage sample_parse sample_toISO
     \<lparr>page_id = Str ''2'', title = Str ''project (OLD)'', lastModifiedDateTime = Undefined\<rparr> =
     Inr \<lparr>skip = True,
          reason = Some (''Title contains excluded keyword: '' @ dq @ ''project (OLD)'' @ dq)\<rparr>
   \<and> \<not> str_includes (''Title contains excluded keyword: '' @ dq @ ''Private Notes'' @ dq) ''private''
   \<and> \<not> str_includes (''Title contains excluded keyword: '' @ dq @ ''project (OLD)'' @ dq) ''(old)''"
  by (simp add: shouldSkipPage_def or_empty_def truthy_def lower_eval template_def dq_def)




text \<open>
  C10. A record whose title is missing (undefined or null) is filtered as a record
  with the empty title: both \<^verbatim>\<open>shouldSkipPage\<close> variants return a verdict (no
  exception), the same verdict as for the empty title, and the record is excluded
  exactly when the date rule excludes it, never by the title rule.
\<close>

theorem absent_title_not_excluded:
  assumes "title p = Undefined \<or> title p = Null"
  shows "shouldSkipPage parse toISO p = shouldSkipPage parse toISO (p\<lparr>title := Str []\<rparr>)
       \<and> shouldSkipPage_cli parse toISO p = shouldSkipPage_cli parse toISO (p\<lparr>title := Str []\<rparr>)
       \<and> \<not> title_excluded p
       \<and> (\<exists>r. shouldSkipPage parse toISO p = Inr r \<and> skip r = shouldSkipByDate parse p)
       \<and> (\<exists>l b. shouldSkipPage_cli parse toISO p = Inr (l, b) \<and> b = shouldSkipByDate parse p)"
proof -
  from assms have e: "or_empty (title p) = []"
    by (auto simp: or_empty_def truthy_def)
  have n: "\<not> str_includes [] ''private''" "\<not> str_includes [] ''(old)''"
    by simp_all
  show ?thesis
    using e n
    by (auto simp: shouldSkipPage_def shouldSkipPage_cli_def shouldSkipByDate_def
        title_excluded_def or_empty_def truthy_def toLowerCase_def Let_def date_lt_def
        Date_toISOString_def cutoffDate_def split: option.splits)
qed

theorem absent_title_not_excluded_witness:
  "shouldSkipPage sample_parse sample_toISO page_undated =
     shouldSkipPage sample_parse sample_toISO (page_undated\<lparr>title := Str []\<rparr>)
   \<and> \<not> title_excluded page_undated
   \<and> (\<exists>r. shouldSkipPage sample_parse sample_toISO page_undated = Inr r \<and> \<not> skip r)
   \<and> \<not> title_excluded page_untitled_2021
   \<and> (\<exists>r. shouldSkipPage sample_parse sample_toISO page_untitled_2021 = Inr r \<and> skip r)
   \<and> (\<exists>l. shouldSkipPage_cli sample_parse sample_toISO page_untitled_2021 = Inr (l, True))"
proof -
  have a: "title page_undated = Undefined \<or> title page_undated = Null"
    and b: "title page_untitled_2021 = Undefined \<or> title page_untitled_2021 = Null"
    by (simp_all add: page_undated_def page_untitled_2021_def)
  have d: "\<not> shouldSkipByDate sample_parse page_undated"
    "shouldSkipByDate sample_parse page_untitled_2021"
    by (simp_all add: shouldSkipByDate_def page_undated_def page_untitled_2021_def truthy_def
        Date_new_def sample_parse_def date_lt_def cutoffDate_def)
  note u = absent_title_not_excluded [OF a, of sample_parse sample_toISO]
  note v = absent_title_not_excluded [OF b, of sample_parse sample_toISO]
  from u d have u1: "\<exists>r. shouldSkipPage sample_parse sample_toISO page_undated = Inr r \<and> \<not> skip r"
    by metis
  from v d have v1: "\<exists>r. shouldSkipPage sample_parse sample_toISO page_untitled_2021 = Inr r \<and> skip r"
    by metis
  from v d have v2: "\<exists>l. shouldSkipPage_cli sample_parse sample_toISO page_untitled_2021 = Inr (l, True)"
    by metis
  from u v u1 v1 v2 show ?thesis by blast
qed

section \<open>The credential loaders\<close>

text \<open>What the loaders return on the two encodings and on a missing file.\<close>

lemma load_token_missing_file:
  "load_token JSON_parse None = Inl TokenFileMissing
   \<and> load_token_listSections JSON_parse None = Inl TokenFileMissing"
  by (simp add: load_token_def load_token_listSections_def)

lemma load_token_structured:
  "JSON_parse d = Some (JObj [(''token'', JStr X)]) \<Longrightarrow> X \<noteq> [] \<Longrightarrow>
     load_token JSON_parse (Some d) = Inr (JStr X)"
  by (simp add: load_token_def read_token_def get_prop_def truthy_json_def)

lemma load_token_raw:
  "JSON_parse d = None \<Longrightarrow>
     load_token JSON_parse (Some d) = (if d = [] then Inl TokenNotInFile else Inr (JStr d))"
  by (simp add: load_token_def read_token_def truthy_json_def)

lemma load_token_listSections_structured:
  "JSON_parse (trim text) = Some (JObj [(''token'', JStr X)]) \<Longrightarrow> trim X \<noteq> [] \<Longrightarrow>
     load_token_listSections JSON_parse (Some text) = Inr (trim X)"
  by (auto simp: load_token_listSections_def read_token_listSections_def get_prop_def
      truthy_json_def trim_value_def trim_def Let_def)

lemma load_token_listSections_raw:
  "JSON_parse (trim text) = None \<Longrightarrow>
     load_token_listSections JSON_parse (Some text) =
       (if trim text = [] then Inl TokenNotInFile else Inr (trim text))"
  by (simp add: load_token_listSections_def read_token_listSections_def Let_def)

text \<open>
  C4 at a raw token file that ends with a line feed, and at a file of two spaces:
  the loader of list-pages.js returns the file text as it is, white space included,
  and does not report the blank file as missing. \<^verbatim>\<open>listSections\<close> trims.
\<close>

theorem load_token_keeps_whitespace:
  "load_token sample_JSON_parse (Some (''abc'' @ [CHR 0x0A])) = Inr (JStr (''abc'' @ [CHR 0x0A]))
   \<and> trim (''abc'' @ [CHR 0x0A]) = ''abc''
   \<and> load_token_listSections sample_JSON_parse (Some (''abc'' @ [CHR 0x0A])) = Inr ''abc''
   \<and> load_token sample_JSON_parse (Some ''  '') = Inr (JStr ''  '')
   \<and> trim ''  '' = []
   \<and> load_token_listSections sample_JSON_parse (Some ''  '') = Inl TokenNotInFile"
  by (simp add: load_token_def read_token_def sample_JSON_parse_def quoted_def dq_def
      truthy_json_def trim_def is_ws_def load_token_listSections_def read_token_listSections_def)

text \<open>
  C9, as the code has it. When the token file parses as JSON, reading the member
  \<open>token\<close> of the value succeeds (the value is not \<open>null\<close>) and gives nothing
  truthy, the credential is reported as missing by the loader of the scripts, by
  \<^verbatim>\<open>getAccessToken\<close> and by \<^verbatim>\<open>ensureGraphClient\<close>: the raw file text is not used as the
  token. \<^verbatim>\<open>listSections\<close> also accepts \<open>access_token\<close>, and reports the credential as
  missing when neither member is truthy.
\<close>

theorem json_without_token_is_missing:
  assumes "JSON_parse tokenData = Some v"
    and "get_prop v ''token'' = Inr t"
    and "\<not> truthy_json t"
  shows "load_token JSON_parse (Some tokenData) = Inl TokenNotInFile
       \<and> \<not> truthy_json (getAccessToken JSON_parse (Some tokenData))
       \<and> (\<not> graphClient st \<longrightarrow>
            fst (ensureGraphClient JSON_parse (Some tokenData) st) =
              Some (Error ''Access token not found. Please save access token first.''))
       \<and> (trim text = tokenData \<and> get_prop v ''access_token'' = Inr t' \<and> \<not> truthy_json t' \<longrightarrow>
            load_token_listSections JSON_parse (Some text) = Inl TokenNotInFile)"
  using assms
  by (simp add: load_token_def read_token_def getAccessToken_def ensureGraphClient_def
      load_token_listSections_def read_token_listSections_def trim_value_def trim_def Let_def)

theorem json_without_token_is_missing_witness:
  "file_access_token \<noteq> [] \<and> file_user \<noteq> []
   \<and> load_token sample_JSON_parse (Some file_access_token) = Inl TokenNotInFile
   \<and> \<not> truthy_json (getAccessToken sample_JSON_parse (Some file_access_token))
   \<and> fst (ensureGraphClient sample_JSON_parse (Some file_access_token)
             \<lparr>accessToken = None, graphClient = False\<rparr>) =
        Some (Error ''Access token not found. Please save access token first.'')
   \<and> load_token_listSections sample_JSON_parse (Some file_user) = Inl TokenNotInFile"
proof -
  have p1: "sample_JSON_parse file_access_token = Some (JObj [(''access_token'', JStr ''abc'')])"
    by (simp add: sample_JSON_parse_def file_access_token_def quoted_def dq_def)
  have p2: "sample_JSON_parse file_user = Some (JObj [(''user'', JStr ''abc'')])"
    by (simp add: sample_JSON_parse_def file_user_def quoted_def dq_def)
  have g1: "get_prop (JObj [(''access_token'', JStr ''abc'')]) ''token'' = Inr None"
    and g2: "get_prop (JObj [(''user'', JStr ''abc'')]) ''token'' = Inr None"
    and g3: "get_prop (JObj [(''user'', JStr ''abc'')]) ''access_token'' = Inr None"
    by (simp_all add: get_prop_def)
  have n: "\<not> truthy_json None"
    by (simp add: truthy_json_def)
  have t: "trim file_user = file_user"
    by (simp add: trim_def file_user_def quoted_def dq_def is_ws_def)
  have ne: "file_access_token \<noteq> [] \<and> file_user \<noteq> []"
    by (simp add: file_access_token_def file_user_def)
  from json_without_token_is_missing [of sample_JSON_parse file_access_token
      "JObj [(''access_token'', JStr ''abc'')]" None
      "\<lparr>accessToken = None, graphClient = False\<rparr>", OF p1 g1 n]
    json_without_token_is_missing [of sample_JSON_parse file_user
      "JObj [(''user'', JStr ''abc'')]" None _ file_user None, OF p2 g2 n] g3 n t ne
  show ?thesis by simp
qed

text \<open>
  C9, as stated for every file that parses as JSON, fails: the file \<open>null\<close> parses,
  reading \<open>token\<close> of \<open>null\<close> throws into the same \<^verbatim>\<open>catch\<close> as a parse error, and
  every loader takes the raw text \<open>null\<close> as the token. In \<^verbatim>\<open>listSections\<close> the same
  happens for a token that is not a string, which has no \<^verbatim>\<open>trim\<close>.
\<close>

theorem null_file_read_as_raw_token:
  "sample_JSON_parse ''null'' = Some JNull
   \<and> load_token sample_JSON_parse (Some ''null'') = Inr (JStr ''null'')
   \<and> getAccessToken sample_JSON_parse (Some ''null'') = Some (JStr ''null'')
   \<and> ensureGraphClient sample_JSON_parse (Some ''null'') \<lparr>accessToken = None, graphClient = False\<rparr> =
       (None, \<lparr>accessToken = Some (JStr ''null''), graphClient = True\<rparr>)
   \<and> load_token_listSections sample_JSON_parse (Some ''null'') = Inr ''null''
   \<and> sample_JSON_parse file_token_true = Some (JObj [(''token'', JBool True)])
   \<and> load_token_listSections sample_JSON_parse (Some file_token_true) = Inr file_token_true"
  by (simp add: sample_JSON_parse_def quoted_def dq_def load_token_def read_token_def
      getAccessToken_def get_prop_def truthy_json_def ensureGraphClient_def
      load_token_listSections_def read_token_listSections_def trim_value_def trim_def is_ws_def
      file_token_true_def Let_def)

section \<open>Pagination: the accumulated records\<close>

lemma follow_links_serves:
  "serves srv s r rs s' \<Longrightarrow>
     follow_links srv s r acc = Some (Inr (acc @ concat (map value_or_empty rs)), s')"
proof (induction rs arbitrary: s r acc)
  case Nil
  then show ?case by (subst follow_links.simps) simp
next
  case (Cons r' rs)
  from Cons.prems obtain s1 where
    t: "truthy (resp_nextLink r)"
    and g: "get_list srv s (or_empty (resp_nextLink r)) = (Inr r', s1)"
    and sv: "serves srv s1 r' rs s'"
    by (auto split: prod.splits sum.splits)
  from Cons.IH [OF sv]
  have "follow_links srv s1 r' (acc @ value_or_empty r') =
          Some (Inr ((acc @ value_or_empty r') @ concat (map value_or_empty rs)), s')" .
  with t g show ?case
    by (subst follow_links.simps) simp
qed

lemma batch_loop_serves:
  "serves srv s r rs s' \<Longrightarrow>
     \<exists>out'. batch_loop srv s r acc n out =
       Some (acc @ concat (map value_or_empty rs), n + length rs, out', s')"
proof (induction rs arbitrary: s r acc n out)
  case Nil
  then show ?case by (subst batch_loop.simps) simp
next
  case (Cons r' rs)
  from Cons.prems obtain s1 where
    t: "truthy (resp_nextLink r)"
    and g: "get_list srv s (or_empty (resp_nextLink r)) = (Inr r', s1)"
    and sv: "serves srv s1 r' rs s'"
    by (auto split: prod.splits sum.splits)
  define acc1 where "acc1 = acc @ value_or_empty r'"
  define out1 where "out1 = out @ [Log (''Batch '' @ show_nat (n + 1) @ '': Fetched ''
                            @ show_nat (length (value_or_empty r')) @ '' pages (total: ''
                            @ show_nat (length (acc @ value_or_empty r')) @ '')'')]"
  from Cons.IH [OF sv, of acc1 "n + 1" out1] obtain out' where
    "batch_loop srv s1 r' acc1 (n + 1) out1 =
       Some (acc1 @ concat (map value_or_empty rs), n + 1 + length rs, out', s')"
    by blast
  moreover have "batch_loop srv s r acc n out = batch_loop srv s1 r' acc1 (n + 1) out1"
    using t g by (subst batch_loop.simps) (simp add: acc1_def out1_def)
  ultimately show ?case
    by (simp add: acc1_def)
qed

lemma length_concat_pages:
  "length (concat (map value_or_empty rs)) = sum_list (map (\<lambda>r. length (value_or_empty r)) rs)"
  by (simp add: length_concat comp_def)

lemmas script_eval = scripted_def replies_def resp_1_def resp_2_def resp_3_def truthy_def
  or_empty_def value_or_empty_def

text \<open>
  C2. When the service answers every request, and the responses after the first
  one \<open>r1\<close> are \<open>rs\<close> (each but the last with a next link), each \<open>fetchAll\<close>
  accumulation returns the records of \<open>r1\<close> and of \<open>rs\<close> concatenated in the order
  received, so their number is the sum of the page lengths: the loop of the
  server's \<^verbatim>\<open>listPages\<close> and \<^verbatim>\<open>searchPages\<close>, \<^verbatim>\<open>listPages\<close> itself from its first
  request on, and both versions of list-pages.js. The result is reached (\<open>Some\<close>),
  and nothing is reordered or removed.
\<close>

theorem fetchAll_is_concatenation:
  assumes "serves srv s1 r1 rs s'"
  shows "follow_links srv s1 r1 (value_or_empty r1) =
           Some (Inr (concat (map value_or_empty (r1 # rs))), s')
       \<and> (p_fetchAll params \<and> get_list srv s (pages_url sid (p_top params)) = (Inr r1, s1) \<longrightarrow>
            listPages_section srv params sid s =
              Some (Inr \<lparr>out_value = concat (map value_or_empty (r1 # rs)),
                         out_nextLink = Undefined\<rparr>, s'))
       \<and> fetch_all_plain srv s1 True r1 = Some (Inr (concat (map value_or_empty (r1 # rs))), s')
       \<and> (\<exists>out. fetch_batches srv s1 True r1 =
                   Some (concat (map value_or_empty (r1 # rs)), out, s'))
       \<and> length (concat (map value_or_empty (r1 # rs))) =
           sum_list (map (\<lambda>r. length (value_or_empty r)) (r1 # rs))"
proof -
  have f: "follow_links srv s1 r1 (value_or_empty r1) =
             Some (Inr (concat (map value_or_empty (r1 # rs))), s')"
    using follow_links_serves [OF assms, of "value_or_empty r1"] by simp
  have l: "p_fetchAll params \<and> get_list srv s (pages_url sid (p_top params)) = (Inr r1, s1) \<longrightarrow>
            listPages_section srv params sid s =
              Some (Inr \<lparr>out_value = concat (map value_or_empty (r1 # rs)),
                         out_nextLink = Undefined\<rparr>, s')"
    using f by (simp add: listPages_section_def Let_def)
  have p: "fetch_all_plain srv s1 True r1 = Some (Inr (concat (map value_or_empty (r1 # rs))), s')"
  proof (cases "truthy (resp_nextLink r1)")
    case True
    then show ?thesis using f by (simp add: fetch_all_plain_def Let_def)
  next
    case False
    with assms have "rs = [] \<and> s' = s1" by (cases rs) auto
    with False show ?thesis by (simp add: fetch_all_plain_def Let_def)
  qed
  have b: "\<exists>out. fetch_batches srv s1 True r1 =
                   Some (concat (map value_or_empty (r1 # rs)), out, s')"
  proof (cases "truthy (resp_nextLink r1)")
    case True
    from batch_loop_serves [OF assms, of "value_or_empty r1" 1
        "[Log (''Batch 1: Fetched '' @ show_nat (length (value_or_empty r1)) @ '' pages'')]"]
    obtain out' where "batch_loop srv s1 r1 (value_or_empty r1) 1
        [Log (''Batch 1: Fetched '' @ show_nat (length (value_or_empty r1)) @ '' pages'')] =
       Some (value_or_empty r1 @ concat (map value_or_empty rs), 1 + length rs, out', s')"
      by blast
    with True show ?thesis by (simp add: fetch_batches_def Let_def)
  next
    case False
    with assms have "rs = [] \<and> s' = s1" by (cases rs) auto
    with False show ?thesis by (simp add: fetch_batches_def Let_def)
  qed
  from f l p b show ?thesis
    by (simp only: length_concat_pages)
qed

theorem fetchAll_is_concatenation_witness:
  "follow_links scripted (replies [Inr resp_2, Inr resp_3]) resp_1 [page_b, page_a] =
     Some (Inr [page_b, page_a, page_c, page_b], replies [])
   \<and> listPages_section scripted list_all_params (Str ''sec'')
        (replies [Inr resp_1, Inr resp_2, Inr resp_3]) =
     Some (Inr \<lparr>out_value = [page_b, page_a, page_c, page_b], out_nextLink = Undefined\<rparr>,
           replies [])
   \<and> fetch_all_plain scripted (replies [Inr resp_2, Inr resp_3]) True resp_1 =
     Some (Inr [page_b, page_a, page_c, page_b], replies [])
   \<and> (\<exists>out. fetch_batches scripted (replies [Inr resp_2, Inr resp_3]) True resp_1 =
              Some ([page_b, page_a, page_c, page_b], out, replies []))
   \<and> length [page_b, page_a, page_c, page_b] = 2 + 1 + (1 :: nat)"
proof -
  have sv: "serves scripted (replies [Inr resp_2, Inr resp_3]) resp_1 [resp_2, resp_3] (replies [])"
    by (simp add: script_eval)
  have g: "p_fetchAll list_all_params
           \<and> get_list scripted (replies [Inr resp_1, Inr resp_2, Inr resp_3])
               (pages_url (Str ''sec'') (p_top list_all_params)) =
             (Inr resp_1, replies [Inr resp_2, Inr resp_3])"
    by (simp add: list_all_params_def scripted_def replies_def)
  have v: "value_or_empty resp_1 = [page_b, page_a]"
    "concat (map value_or_empty [resp_1, resp_2, resp_3]) = [page_b, page_a, page_c, page_b]"
    by (simp_all add: value_or_empty_def resp_1_def resp_2_def resp_3_def)
  from fetchAll_is_concatenation [OF sv, of list_all_params "replies [Inr resp_1, Inr resp_2, Inr resp_3]" "Str ''sec''"] g
  show ?thesis
    unfolding v by simp
qed

text \<open>
  The same for every service: when the request after the responses \<open>rs\<close> throws
  \<open>e\<close>, the loop without a \<^verbatim>\<open>catch\<close> ends with \<open>e\<close>, and the loop of the second
  list-pages.js returns the records received so far and reports \<open>e\<close>.
\<close>

lemma follow_links_failure:
  "serves_until_failure srv s r rs e s' \<Longrightarrow> follow_links srv s r acc = Some (Inl e, s')"
proof (induction rs arbitrary: s r acc)
  case Nil
  then show ?case by (subst follow_links.simps) simp
next
  case (Cons r' rs)
  from Cons.prems obtain s1 where
    t: "truthy (resp_nextLink r)"
    and g: "get_list srv s (or_empty (resp_nextLink r)) = (Inr r', s1)"
    and sv: "serves_until_failure srv s1 r' rs e s'"
    by (auto split: prod.splits sum.splits)
  from Cons.IH [OF sv, of "acc @ value_or_empty r'"] t g show ?case
    by (subst follow_links.simps) simp
qed

lemma batch_loop_failure:
  "serves_until_failure srv s r rs e s' \<Longrightarrow>
     \<exists>out'. batch_loop srv s r acc n out =
       Some (acc @ concat (map value_or_empty rs), n + length rs + 1,
             out @ out' @
               [Err (''Error fetching batch '' @ show_nat (n + length rs + 1) @ '': '' @ message e),
                Log (''Continuing with ''
                     @ show_nat (length (acc @ concat (map value_or_empty rs)))
                     @ '' pages fetched so far...'')],
             s')"
proof (induction rs arbitrary: s r acc n out)
  case Nil
  then have "batch_loop srv s r acc n out =
       Some (acc, n + 1,
             out @ [] @
               [Err (''Error fetching batch '' @ show_nat (n + 1) @ '': '' @ message e),
                Log (''Continuing with '' @ show_nat (length acc) @ '' pages fetched so far...'')],
             s')"
    by (subst batch_loop.simps) simp
  then show ?case by (intro exI [of _ "[]"]) simp
next
  case (Cons r' rs)
  from Cons.prems obtain s1 where
    t: "truthy (resp_nextLink r)"
    and g: "get_list srv s (or_empty (resp_nextLink r)) = (Inr r', s1)"
    and sv: "serves_until_failure srv s1 r' rs e s'"
    by (auto split: prod.splits sum.splits)
  define acc1 where "acc1 = acc @ value_or_empty r'"
  define line where "line = Log (''Batch '' @ show_nat (n + 1) @ '': Fetched ''
                            @ show_nat (length (value_or_empty r')) @ '' pages (total: ''
                            @ show_nat (length (acc @ value_or_empty r')) @ '')'')"
  from Cons.IH [OF sv, of acc1 "n + 1" "out @ [line]"] obtain out' where
    "batch_loop srv s1 r' acc1 (n + 1) (out @ [line]) =
       Some (acc1 @ concat (map value_or_empty rs), n + 1 + length rs + 1,
             (out @ [line]) @ out' @
               [Err (''Error fetching batch '' @ show_nat (n + 1 + length rs + 1) @ '': '' @ message e),
                Log (''Continuing with ''
                     @ show_nat (length (acc1 @ concat (map value_or_empty rs)))
                     @ '' pages fetched so far...'')],
             s')"
    by blast
  moreover have "batch_loop srv s r acc n out = batch_loop srv s1 r' acc1 (n + 1) (out @ [line])"
    using t g by (subst batch_loop.simps) (simp add: acc1_def line_def)
  ultimately have "batch_loop srv s r acc n out =
       Some (acc @ concat (map value_or_empty (r' # rs)), n + length (r' # rs) + 1,
             out @ (line # out') @
               [Err (''Error fetching batch '' @ show_nat (n + length (r' # rs) + 1) @ '': '' @ message e),
                Log (''Continuing with ''
                     @ show_nat (length (acc @ concat (map value_or_empty (r' # rs))))
                     @ '' pages fetched so far...'')],
             s')"
    by (simp add: acc1_def)
  then show ?case by blast
qed

lemma listPages_section_failure:
  "p_fetchAll params \<Longrightarrow> get_list srv s (pages_url sid (p_top params)) = (Inr r1, s1) \<Longrightarrow>
   serves_until_failure srv s1 r1 rs e s' \<Longrightarrow>
     listPages_section srv params sid s = Some (Inl e, s')"
  by (simp add: listPages_section_def Let_def follow_links_failure)

lemma fetch_batches_failure:
  assumes "serves_until_failure srv s1 r1 rs e s'"
  shows "\<exists>out. fetch_batches srv s1 True r1 =
                 Some (concat (map value_or_empty (r1 # rs)), out, s')
               \<and> Err (''Error fetching batch '' @ show_nat (length rs + 2) @ '': '' @ message e)
                   \<in> set out"
proof -
  from assms have t: "truthy (resp_nextLink r1)" by (cases rs) auto
  from batch_loop_failure [OF assms, of "value_or_empty r1" 1
      "[Log (''Batch 1: Fetched '' @ show_nat (length (value_or_empty r1)) @ '' pages'')]"]
  obtain out' where b: "batch_loop srv s1 r1 (value_or_empty r1) 1
      [Log (''Batch 1: Fetched '' @ show_nat (length (value_or_empty r1)) @ '' pages'')] =
       Some (value_or_empty r1 @ concat (map value_or_empty rs), 1 + length rs + 1,
             [Log (''Batch 1: Fetched '' @ show_nat (length (value_or_empty r1)) @ '' pages'')]
               @ out' @
               [Err (''Error fetching batch '' @ show_nat (1 + length rs + 1) @ '': '' @ message e),
                Log (''Continuing with ''
                     @ show_nat (length (value_or_empty r1 @ concat (map value_or_empty rs)))
                     @ '' pages fetched so far...'')],
             s')"
    by blast
  have e: "1 + length rs + 1 = length rs + 2" by simp
  from t b show ?thesis
    unfolding e by (simp add: fetch_batches_def Let_def)
qed


text \<open>
  C1 at a concrete run. The service sends two pages of records and then fails the
  third request. The server's \<^verbatim>\<open>listPages\<close> with \<open>fetchAll\<close> and \<^verbatim>\<open>searchPages\<close> throw
  \<open>Failed to ...\<close>, and the first list-pages.js ends with the exception: the three
  records received are not returned. The second list-pages.js reports the failure
  on the console, stops, and keeps the three records.
\<close>

theorem listPages_tool_discards_pages:
  "listPages_tool sample_JSON_parse None scripted list_all_params
     (client_ready, replies [Inr resp_1, Inr resp_2, Inl (Error ''socket hang up'')]) =
     Some (Inl (Error ''Failed to list pages: socket hang up''), client_ready, replies [])
   \<and> searchPages_tool sample_JSON_parse None scripted search_all_params
     (client_ready, replies [Inr resp_1, Inr resp_2, Inl (Error ''socket hang up'')]) =
     Some (Inl (Error ''Failed to search pages: socket hang up''), client_ready, replies [])
   \<and> fetch_all_plain scripted (replies [Inr resp_2, Inl (Error ''socket hang up'')]) True resp_1 =
     Some (Inl (Error ''socket hang up''), replies [])
   \<and> fetch_batches scripted (replies [Inr resp_2, Inl (Error ''socket hang up'')]) True resp_1 =
     Some ([page_b, page_a, page_c],
           [Log ''Batch 1: Fetched 2 pages'',
            Log ''Batch 2: Fetched 1 pages (total: 3)'',
            Err ''Error fetching batch 3: socket hang up'',
            Log ''Continuing with 3 pages fetched so far...'',
            Log ([CHR 0x0A] @ ''Completed! Fetched 3 total pages in 3 batches'')],
           replies [])"
  by (simp add: listPages_tool_def listPages_try_def listPages_section_def searchPages_tool_def
      searchPages_try_def fetch_all_plain_def fetch_batches_def ensureGraphClient_def
      client_ready_def list_all_params_def search_all_params_def script_eval
      follow_links.simps batch_loop.simps show_nat.simps digit_char_def char_of_def bit_0
      template_def pages_url_def Let_def)

section \<open>The retrievers and the export driver\<close>

lemma logged_get_page:
  "get_page srv s u = (r, s') \<Longrightarrow> get_page (logged srv) (s, l) u = (r, (s', l @ [PageRequest u]))"
  by (simp add: logged_def)

lemma logged_fetch_url:
  "fetch_url srv s u = (r, s') \<Longrightarrow>
     fetch_url (logged srv) (s, l) u = (r, (s', l @ [ContentRequest u]))"
  by (simp add: logged_def)

text \<open>
  When the metadata request for a page succeeds and the check made on the metadata
  excludes the page, the retriever stops there. For every service, with the
  requests observed:
  \<^item> the \<^verbatim>\<open>downloadFile\<close> tool returns \<open>Page skipped: ...\<close>, the only request it has
    issued is the metadata request, and the disk is unchanged;
  \<^item> \<^verbatim>\<open>getPageContent\<close> of get-page.js ends without a download, with the same
    single request and the disk unchanged;
  \<^item> \<^verbatim>\<open>downloadPage\<close> of the export driver, whose check on the metadata is the
    date rule alone, returns a skip: after the metadata request only (or, in fast
    mode with a recent file, after no request at all), and the output directory is
    unchanged;
  \<^item> an entry of the page list whose title the title rule excludes is not among
    the entries the driver downloads.
\<close>

lemma excluded_record_not_fetched:
  assumes "get_page srv s (metadata_path pageId) = (Inr page, s1)"
  shows "(\<forall>r. shouldSkipPage parse toISO page = Inr r \<and> skip r \<and> pageId \<noteq> [] \<and> truthy filePath \<longrightarrow>
            downloadFile_try parse toISO (logged srv)
              \<lparr>d_pageId = Str pageId, d_filePath = filePath\<rparr> ((s, reqs), disk) =
            (Inr (''Page skipped: '' @ template_reason (reason r)),
             (s1, reqs @ [PageRequest (metadata_path pageId)]), disk))
       \<and> (\<forall>out. shouldSkipPage_cli parse toISO page = Inr (out, True)
                 \<and> truthy_json (getAccessToken JSON_parse file) \<longrightarrow>
            getPageContent JSON_parse file parse toISO (logged srv) pageId ((s, reqs), disk) =
            (NotDownloaded, out @ [''Page will not be downloaded due to filtering rules.''],
             (s1, reqs @ [PageRequest (metadata_path pageId)]), disk))
       \<and> (shouldSkipByDate (rt_parse rt) page \<longrightarrow>
            downloadPage rt (logged srv) pageId pageTitle fastMode 0
              \<lparr>service = (s, reqs), output_dir = dir, failed_log = fl\<rparr> =
            (if fastMode \<and> hasRecentFileByTitle rt dir pageTitle \<noteq> None
             then (Skipped ''fast mode - recent file exists'',
                   \<lparr>service = (s, reqs), output_dir = dir, failed_log = fl\<rparr>)
             else (Skipped ''old date'',
                   \<lparr>service = (s1, reqs @ [PageRequest (metadata_path pageId)]),
                    output_dir = dir, failed_log = fl\<rparr>)))
       \<and> (\<forall>p \<in> set pages. shouldSkipPageByTitle (e_title p) \<longrightarrow> p \<notin> set (pagesToDownload pages))"
proof -
  note g = logged_get_page [OF assms, of reqs]
  have a: "\<forall>r. shouldSkipPage parse toISO page = Inr r \<and> skip r \<and> pageId \<noteq> [] \<and> truthy filePath \<longrightarrow>
            downloadFile_try parse toISO (logged srv)
              \<lparr>d_pageId = Str pageId, d_filePath = filePath\<rparr> ((s, reqs), disk) =
            (Inr (''Page skipped: '' @ template_reason (reason r)),
             (s1, reqs @ [PageRequest (metadata_path pageId)]), disk)"
    using g by (simp add: downloadFile_try_def Let_def truthy_def or_empty_def)
  have b: "\<forall>out. shouldSkipPage_cli parse toISO page = Inr (out, True)
                 \<and> truthy_json (getAccessToken JSON_parse file) \<longrightarrow>
            getPageContent JSON_parse file parse toISO (logged srv) pageId ((s, reqs), disk) =
            (NotDownloaded, out @ [''Page will not be downloaded due to filtering rules.''],
             (s1, reqs @ [PageRequest (metadata_path pageId)]), disk)"
    using g by (simp add: getPageContent_def)
  have c: "shouldSkipByDate (rt_parse rt) page \<longrightarrow>
            downloadPage rt (logged srv) pageId pageTitle fastMode 0
              \<lparr>service = (s, reqs), output_dir = dir, failed_log = fl\<rparr> =
            (if fastMode \<and> hasRecentFileByTitle rt dir pageTitle \<noteq> None
             then (Skipped ''fast mode - recent file exists'',
                   \<lparr>service = (s, reqs), output_dir = dir, failed_log = fl\<rparr>)
             else (Skipped ''old date'',
                   \<lparr>service = (s1, reqs @ [PageRequest (metadata_path pageId)]),
                    output_dir = dir, failed_log = fl\<rparr>))"
    using g by (subst downloadPage.simps) (auto simp: downloadPage_try_def)
  have d: "\<forall>p \<in> set pages. shouldSkipPageByTitle (e_title p) \<longrightarrow> p \<notin> set (pagesToDownload pages)"
    by (simp add: pagesToDownload_def)
  from a b c d show ?thesis by blast
qed

text \<open>
  C3, as the code has it. When the metadata request succeeds, the date rule does
  not exclude the page and the output directory holds the expected file name
  (sanitized title, two hyphens, the last-modified date, \<open>.html\<close>), \<^verbatim>\<open>downloadPage\<close>
  returns the skip \<open>already exists\<close> on its first attempt: the metadata request is
  the only request issued, no content request follows, and the output directory
  is unchanged. In fast mode with a recent file for the title it returns before
  any request.
\<close>

theorem existing_file_skipped:
  assumes "get_page srv s (metadata_path pageId) = (Inr page, s1)"
    and "\<not> shouldSkipByDate (rt_parse rt) page"
    and "file_exists dir (sanitizeFilename pageTitle @ ''--''
                          @ formatDate rt (lastModifiedDateTime page) @ ''.html'')"
  shows "downloadPage rt (logged srv) pageId pageTitle fastMode 0
           \<lparr>service = (s, reqs), output_dir = dir, failed_log = fl\<rparr> =
         (if fastMode \<and> hasRecentFileByTitle rt dir pageTitle \<noteq> None
          then (Skipped ''fast mode - recent file exists'',
                \<lparr>service = (s, reqs), output_dir = dir, failed_log = fl\<rparr>)
          else (Skipped ''already exists'',
                \<lparr>service = (s1, reqs @ [PageRequest (metadata_path pageId)]),
                 output_dir = dir, failed_log = fl\<rparr>))"
  using logged_get_page [OF assms(1), of reqs] assms(2,3)
  by (subst downloadPage.simps) (auto simp: downloadPage_try_def Let_def)

lemmas date_eval = sample_rt_def sample_parse_def sample_local_date_def sample_recent_def
  sample_toISO_def formatDate_def Date_new_def padStart2_def show_int_def show_nat.simps
  digit_char_def char_of_def bit_0 shouldSkipByDate_def date_lt_def cutoffDate_def truthy_def

lemma name_2022:
  "sanitizeFilename ''Notes'' @ ''--'' @ formatDate sample_rt (lastModifiedDateTime page_2022)
     @ ''.html'' = ''Notes--20220601.html''"
  by (simp add: sanitizeFilename_def page_2022_def date_eval)

theorem existing_file_skipped_witness:
  "downloadPage sample_rt (logged scripted) ''p1'' ''Notes'' False 0
     \<lparr>service = (page_script [Inr page_2022] [Inr html_reply], []),
      output_dir = Some [(''Notes--20220601.html'', ''<html>old</html>'')], failed_log = None\<rparr> =
   (Skipped ''already exists'',
    \<lparr>service = (page_script [] [Inr html_reply], [PageRequest (metadata_path ''p1'')]),
     output_dir = Some [(''Notes--20220601.html'', ''<html>old</html>'')], failed_log = None\<rparr>)
   \<and> downloadPage sample_rt (logged scripted) ''p1'' ''Notes'' True 0
     \<lparr>service = (page_script [Inr page_2022] [Inr html_reply], []),
      output_dir = Some [(''Notes--20220601.html'', ''<html>old</html>'')], failed_log = None\<rparr> =
   (Skipped ''fast mode - recent file exists'',
    \<lparr>service = (page_script [Inr page_2022] [Inr html_reply], []),
     output_dir = Some [(''Notes--20220601.html'', ''<html>old</html>'')], failed_log = None\<rparr>)"
proof -
  have g: "get_page scripted (page_script [Inr page_2022] [Inr html_reply]) (metadata_path ''p1'')
             = (Inr page_2022, page_script [] [Inr html_reply])"
    by (simp add: scripted_def page_script_def)
  have d: "\<not> shouldSkipByDate (rt_parse sample_rt) page_2022"
    by (simp add: page_2022_def date_eval)
  have f: "file_exists (Some [(''Notes--20220601.html'', ''<html>old</html>'')])
             (sanitizeFilename ''Notes'' @ ''--''
              @ formatDate sample_rt (lastModifiedDateTime page_2022) @ ''.html'')"
    unfolding name_2022 by (simp add: file_exists_def)
  have r: "hasRecentFileByTitle sample_rt (Some [(''Notes--20220601.html'', ''<html>old</html>'')])
             ''Notes'' = Some ''Notes--20220601.html''"
    by (simp add: hasRecentFileByTitle_def dated_name_def sanitizeFilename_def is_digit_def
        sample_rt_def sample_recent_def)
  from existing_file_skipped [OF g d f, of False "[]" None]
    existing_file_skipped [OF g d f, of True "[]" None] r
  show ?thesis by simp
qed

text \<open>
  C3, as the specification states it, fails: with the expected file
  \<open>Notes--20220601.html\<close> present, the run skips the record, and it has issued the
  metadata request.
\<close>

theorem existing_file_metadata_request:
  "fst (downloadPage sample_rt (logged scripted) ''p1'' ''Notes'' False 0
     \<lparr>service = (page_script [Inr page_2022] [Inr html_reply], []),
      output_dir = Some [(''Notes--20220601.html'', ''<html>old</html>'')], failed_log = None\<rparr>)
     = Skipped ''already exists''
   \<and> snd (service (snd (downloadPage sample_rt (logged scripted) ''p1'' ''Notes'' False 0
     \<lparr>service = (page_script [Inr page_2022] [Inr html_reply], []),
      output_dir = Some [(''Notes--20220601.html'', ''<html>old</html>'')], failed_log = None\<rparr>)))
     = [PageRequest ''/me/onenote/pages/p1'']"
  by (simp add: downloadPage.simps downloadPage_try_def scripted_def logged_def page_script_def
      page_2022_def date_eval sanitizeFilename_def file_exists_def metadata_path_def Let_def)

lemma excluded_record_not_fetched_sample:
  "downloadFile_try sample_parse sample_toISO (logged scripted)
     \<lparr>d_pageId = Str ''p1'', d_filePath = Str ''/tmp/notes.html''\<rparr>
     ((page_script [Inr page_2021] [Inr html_reply], []), Map.empty) =
   (Inr ''Page skipped: Last modified date (2021-06-01T00:00:00.000Z) is older than 2022/1/1'',
    (page_script [] [Inr html_reply], [PageRequest (metadata_path ''p1'')]), Map.empty)
   \<and> getPageContent sample_JSON_parse (Some ''abc'') sample_parse sample_toISO (logged scripted) ''p1''
     ((page_script [Inr page_2021] [Inr html_reply], []), Map.empty) =
   (NotDownloaded,
    [''Skipping page: Last modified date (2021-06-01T00:00:00.000Z) is older than 2022/1/1'',
     ''Page will not be downloaded due to filtering rules.''],
    (page_script [] [Inr html_reply], [PageRequest (metadata_path ''p1'')]), Map.empty)
   \<and> downloadPage sample_rt (logged scripted) ''p1'' ''Notes'' False 0
     \<lparr>service = (page_script [Inr page_2021] [Inr html_reply], []),
      output_dir = None, failed_log = None\<rparr> =
   (Skipped ''old date'',
    \<lparr>service = (page_script [] [Inr html_reply], [PageRequest (metadata_path ''p1'')]),
     output_dir = None, failed_log = None\<rparr>)
   \<and> \<lparr>e_title = ''Private diary'', e_pageId = ''p2''\<rparr>
       \<notin> set (pagesToDownload [\<lparr>e_title = ''Private diary'', e_pageId = ''p2''\<rparr>])"
proof -
  have g: "get_page scripted (page_script [Inr page_2021] [Inr html_reply]) (metadata_path ''p1'')
             = (Inr page_2021, page_script [] [Inr html_reply])"
    by (simp add: scripted_def page_script_def)
  have a: "shouldSkipPage sample_parse sample_toISO page_2021 =
             Inr \<lparr>skip = True, reason = Some
               ''Last modified date (2021-06-01T00:00:00.000Z) is older than 2022/1/1''\<rparr>"
    by (simp add: shouldSkipPage_def page_2021_def or_empty_def lower_eval date_eval
        Date_toISOString_def)
  have b: "shouldSkipPage_cli sample_parse sample_toISO page_2021 =
             Inr ([''Skipping page: Last modified date (2021-06-01T00:00:00.000Z) is older than 2022/1/1''],
                  True)"
    by (simp add: shouldSkipPage_cli_def page_2021_def or_empty_def lower_eval date_eval
        Date_toISOString_def)
  have t: "truthy_json (getAccessToken sample_JSON_parse (Some ''abc''))"
    by (simp add: getAccessToken_def read_token_def sample_JSON_parse_def quoted_def dq_def
        truthy_json_def)
  have c: "shouldSkipByDate (rt_parse sample_rt) page_2021"
    by (simp add: page_2021_def date_eval)
  have d: "shouldSkipPageByTitle (e_title \<lparr>e_title = ''Private diary'', e_pageId = ''p2''\<rparr>)"
    by (simp add: shouldSkipPageByTitle_def lower_eval)
  have f: "truthy (Str ''/tmp/notes.html'')" "''p1'' \<noteq> []"
    by (simp_all add: truthy_def)
  from excluded_record_not_fetched [OF g, of sample_parse sample_toISO "Str ''/tmp/notes.html''"
      "[]" Map.empty sample_JSON_parse "Some ''abc''" sample_rt "''Notes''" False None None
      "[\<lparr>e_title = ''Private diary'', e_pageId = ''p2''\<rparr>]"] a b t c d f
  show ?thesis by (simp add: template_reason_def)
qed

text \<open>A record that the filter does not exclude is fetched and written.\<close>

lemma included_record_is_downloaded:
  "downloadFile_try sample_parse sample_toISO (logged scripted)
     \<lparr>d_pageId = Str ''p1'', d_filePath = Str ''/tmp/notes.html''\<rparr>
     ((page_script [Inr page_2022] [Inr html_reply], []), Map.empty) =
   (Inr (''Page '' @ dq @ ''Notes'' @ dq
         @ '' successfully downloaded to /tmp/notes.html (18 characters)''),
    (page_script [] [], [PageRequest (metadata_path ''p1''), ContentRequest (content_url ''p1'')]),
    [''/tmp/notes.html'' \<mapsto> ''<html>notes</html>''])
   \<and> downloadPage sample_rt (logged scripted) ''p1'' ''Notes'' False 0
     \<lparr>service = (page_script [Inr page_2022] [Inr html_reply], []),
      output_dir = None, failed_log = None\<rparr> =
   (Downloaded ''Notes--20220601.html'',
    \<lparr>service = (page_script [] [],
                [PageRequest (metadata_path ''p1''), ContentRequest (content_url ''p1'')]),
     output_dir = Some [(''Notes--20220601.html'', ''<html>notes</html>'')], failed_log = None\<rparr>)"
  by (simp add: downloadFile_try_def downloadPage.simps downloadPage_try_def shouldSkipPage_def
      scripted_def logged_def page_script_def html_reply_def page_2022_def or_empty_def
      lower_eval date_eval template_def sanitizeFilename_def file_exists_def write_file_def
      Let_def)

text \<open>
  C7 at a concrete run. The page list entry is titled \<open>Notes\<close>; the metadata the
  service returns for it is titled \<open>Private diary\<close> and dated 1 June 2022, so the
  inclusion filter excludes the record. The export driver tests only the date on
  the metadata: it requests the content and writes \<open>Notes--20220601.html\<close>. On the
  same replies the \<^verbatim>\<open>downloadFile\<close> tool stops after the metadata request.
\<close>

theorem driver_downloads_excluded_page:
  "shouldSkipPage sample_parse sample_toISO page_private_2022 =
     Inr \<lparr>skip = True,
          reason = Some (''Title contains excluded keyword: '' @ dq @ ''Private diary'' @ dq)\<rparr>
   \<and> \<not> shouldSkipPageByTitle ''Notes''
   \<and> downloadPage sample_rt (logged scripted) ''p1'' ''Notes'' False 0
       \<lparr>service = (page_script [Inr page_private_2022] [Inr html_reply], []),
        output_dir = None, failed_log = None\<rparr> =
     (Downloaded ''Notes--20220601.html'',
      \<lparr>service = (page_script [] [],
                  [PageRequest (metadata_path ''p1''), ContentRequest (content_url ''p1'')]),
       output_dir = Some [(''Notes--20220601.html'', ''<html>notes</html>'')],
       failed_log = None\<rparr>)
   \<and> main sample_rt (logged scripted) False [\<lparr>e_title = ''Notes'', e_pageId = ''p1''\<rparr>]
       \<lparr>service = (page_script [Inr page_private_2022] [Inr html_reply], []),
        output_dir = None, failed_log = None\<rparr> =
     ((0, \<lparr>consecutiveFailures = 0, totalSuccess = 1, totalSkipped = 0, totalFailed = 0,
           failedPages = [], outcomes = [Downloaded ''Notes--20220601.html'']\<rparr>),
      \<lparr>service = (page_script [] [],
                  [PageRequest (metadata_path ''p1''), ContentRequest (content_url ''p1'')]),
       output_dir = Some [(''Notes--20220601.html'', ''<html>notes</html>'')],
       failed_log = None\<rparr>)
   \<and> downloadFile_try sample_parse sample_toISO (logged scripted)
       \<lparr>d_pageId = Str ''p1'', d_filePath = Str ''/tmp/notes.html''\<rparr>
       ((page_script [Inr page_private_2022] [Inr html_reply], []), Map.empty) =
     (Inr (''Page skipped: Title contains excluded keyword: '' @ dq @ ''Private diary'' @ dq),
      (page_script [] [Inr html_reply], [PageRequest (metadata_path ''p1'')]), Map.empty)"
  by (simp add: shouldSkipPage_def shouldSkipPageByTitle_def main_def pagesToDownload_def
      progress_start_def downloadPage.simps downloadPage_try_def downloadFile_try_def
      scripted_def logged_def page_script_def html_reply_def page_private_2022_def or_empty_def
      lower_eval date_eval template_def template_reason_def sanitizeFilename_def
      file_exists_def write_file_def MAX_CONSECUTIVE_FAILURES_def Let_def)

text \<open>
  A run of the driver over three entries, where both content requests for the
  second entry fail: the results are a download, a failure and a download, the
  loop goes on after the failure, and the failure log has the one line.
\<close>

lemma isolated_failure_run:
  "main sample_rt scripted False [entry 1, entry 2, entry 3]
     \<lparr>service = page_script [Inr page_2022, Inr page_2022, Inr page_2022, Inr page_2022]
                  [Inr html_reply, Inl (Error ''timeout''), Inl (Error ''timeout''), Inr html_reply],
      output_dir = None, failed_log = None\<rparr> =
   ((0, \<lparr>consecutiveFailures = 0, totalSuccess = 2, totalSkipped = 0, totalFailed = 1,
         failedPages = [(''Page 2'', ''id2'', ''timeout'')],
         outcomes = [Downloaded ''Page 1--20220601.html'', Failed ''timeout'',
                     Downloaded ''Page 3--20220601.html'']\<rparr>),
    \<lparr>service = page_script [] [],
     output_dir = Some [(''Page 1--20220601.html'', ''<html>notes</html>''),
                        (''Page 3--20220601.html'', ''<html>notes</html>'')],
     failed_log = Some ''Page 2 -- id2 (Error: timeout)''\<rparr>)"
  by (simp add: main_def pagesToDownload_def shouldSkipPageByTitle_def lower_eval entry_def
      progress_start_def downloadPage.simps downloadPage_try_def scripted_def page_script_def
      html_reply_def page_2022_def date_eval sanitizeFilename_def file_exists_def write_file_def
      failed_line_def MAX_CONSECUTIVE_FAILURES_def Let_def)
















end
